theory Spec2Isabelle
  imports Complex_Main
begin

section \<open>Python values shared by both modules\<close>

text \<open>
  The exceptions the modelled code can raise.  \<open>LibraryError\<close> stands for any
  exception raised inside an external library call (an estimator that fails to fit,
  input validation that rejects the data, and so on).  \<open>NonFinite\<close> is not an
  exception: it marks a division by zero inside an array computation, where
  \<open>numpy\<close> goes on with an infinity or a not-a-number that the real-valued arrays
  of this model cannot hold.
\<close>

datatype error =
    AssertionError
  | KeyError
  | ValueError
  | TypeError
  | IndexError
  | AttributeError
  | NameError
  | ZeroDivisionError
  | LinAlgError
  | LibraryError
  | NonFinite

text \<open>
  A two-dimensional array: \<open>shape[1]\<close> is kept explicitly, because an array with
  no rows still has a column count.  Rows are stored in order.
\<close>

datatype matrix = Matrix (ncols: nat) (mrows: "real list list")

definition nrows :: "matrix \<Rightarrow> nat" where
  "nrows X = length (mrows X)"

definition column :: "matrix \<Rightarrow> nat \<Rightarrow> real list" where
  "column X i = map (\<lambda>r. r ! i) (mrows X)"

definition column_matrix :: "real list \<Rightarrow> matrix" where
  "column_matrix xs = Matrix 1 (map (\<lambda>x. [x]) xs)"

definition take_rows :: "nat \<Rightarrow> matrix \<Rightarrow> matrix" where
  "take_rows k X = Matrix (ncols X) (take k (mrows X))"

definition dot :: "real list \<Rightarrow> real list \<Rightarrow> real" where
  "dot xs ys = sum_list (map2 (\<lambda>x y. x * y) xs ys)"

text \<open>
  Arrays of dimension zero and one.  \<open>numpy\<close>'s \<open>squeeze\<close> turns a one-element
  array into a zero-dimensional one, and the matrix product refuses a
  zero-dimensional operand, so the distinction is kept.
\<close>

datatype ndarr = Arr0 real | Arr1 "real list"

fun nd_map :: "(real \<Rightarrow> real) \<Rightarrow> ndarr \<Rightarrow> ndarr" where
  "nd_map f (Arr0 a) = Arr0 (f a)"
| "nd_map f (Arr1 xs) = Arr1 (map f xs)"

text \<open>Elementwise binary operators with \<open>numpy\<close>'s broadcasting rule.\<close>

fun nd_binop :: "(real \<Rightarrow> real \<Rightarrow> real) \<Rightarrow> ndarr \<Rightarrow> ndarr \<Rightarrow> error + ndarr" where
  "nd_binop f (Arr0 a) (Arr0 b) = Inr (Arr0 (f a b))"
| "nd_binop f (Arr0 a) (Arr1 ys) = Inr (Arr1 (map (f a) ys))"
| "nd_binop f (Arr1 xs) (Arr0 b) = Inr (Arr1 (map (\<lambda>x. f x b) xs))"
| "nd_binop f (Arr1 xs) (Arr1 ys) =
     (if length xs = length ys then Inr (Arr1 (map2 f xs ys))
      else if length xs = 1 then Inr (Arr1 (map (f (hd xs)) ys))
      else if length ys = 1 then Inr (Arr1 (map (\<lambda>x. f x (hd ys)) xs))
      else Inl ValueError)"

text \<open>\<open>X * v\<close> for a two-dimensional \<open>X\<close>: \<open>v\<close> is broadcast along the rows.\<close>

fun mat_times :: "matrix \<Rightarrow> ndarr \<Rightarrow> error + matrix" where
  "mat_times X (Arr0 s) = Inr (Matrix (ncols X) (map (map (\<lambda>x. x * s)) (mrows X)))"
| "mat_times X (Arr1 ss) =
     (if length ss = ncols X then Inr (Matrix (ncols X) (map (\<lambda>r. map2 (\<lambda>x s. x * s) r ss) (mrows X)))
      else if length ss = 1 then Inr (Matrix (ncols X) (map (map (\<lambda>x. x * hd ss)) (mrows X)))
      else if ncols X = 1 then Inr (Matrix (length ss) (map (\<lambda>r. map (\<lambda>s. hd r * s) ss) (mrows X)))
      else Inl ValueError)"

text \<open>
  \<open>X @ v\<close>: the matrix product raises \<open>ValueError\<close> on a zero-dimensional operand
  and on a length that is not the column count.
\<close>

fun matmul :: "matrix \<Rightarrow> ndarr \<Rightarrow> error + ndarr" where
  "matmul X (Arr0 s) = Inl ValueError"
| "matmul X (Arr1 c) =
     (if length c = ncols X then Inr (Arr1 (map (\<lambda>r. dot r c) (mrows X))) else Inl ValueError)"

text \<open>\<open>squeeze\<close> of an array of shape \<open>(n, 1)\<close>, given as its \<open>n\<close> entries.\<close>

definition squeeze_n_by_1 :: "real list \<Rightarrow> ndarr" where
  "squeeze_n_by_1 xs = (case xs of [x] \<Rightarrow> Arr0 x | _ \<Rightarrow> Arr1 xs)"

text \<open>\<open>a[:5]\<close>: a zero-dimensional array cannot be sliced.\<close>

fun nd_take :: "nat \<Rightarrow> ndarr \<Rightarrow> error + ndarr" where
  "nd_take k (Arr0 a) = Inl IndexError"
| "nd_take k (Arr1 xs) = Inr (Arr1 (take k xs))"

definition sign :: "real \<Rightarrow> real" where
  "sign x = (if x < 0 then - 1 else if x = 0 then 0 else 1)"


section \<open>The marginal-shrinkage linear model\<close>

subsection \<open>The library's standard scaler\<close>

text \<open>
  \<open>StandardScaler\<close> with its defaults: per column the mean and the population
  standard deviation, a zero deviation replaced by one.  \<open>transform\<close> rejects an
  input with another number of columns.
\<close>

record scaler =
  sc_mean :: "real list"
  sc_scale :: "real list"

definition mean :: "real list \<Rightarrow> real" where
  "mean xs = sum_list xs / real (length xs)"

definition col_scale :: "real list \<Rightarrow> real" where
  "col_scale xs =
     (let s = sqrt (mean (map (\<lambda>x. (x - mean xs)\<^sup>2) xs)) in if s = 0 then 1 else s)"

definition scaler_fit :: "matrix \<Rightarrow> scaler" where
  "scaler_fit X =
     \<lparr> sc_mean = map (\<lambda>i. mean (column X i)) [0..<ncols X],
       sc_scale = map (\<lambda>i. col_scale (column X i)) [0..<ncols X] \<rparr>"

definition scaler_transform :: "scaler \<Rightarrow> matrix \<Rightarrow> error + matrix" where
  "scaler_transform sc X =
     (if ncols X = length (sc_mean sc)
      then Inr (Matrix (ncols X)
             (map (\<lambda>r. map (\<lambda>(x, m, s). (x - m) / s) (zip r (zip (sc_mean sc) (sc_scale sc)))) (mrows X)))
      else Inl ValueError)"

definition scaler_inverse_transform :: "scaler \<Rightarrow> matrix \<Rightarrow> error + matrix" where
  "scaler_inverse_transform sc X =
     (if ncols X = length (sc_mean sc)
      then Inr (Matrix (ncols X)
             (map (\<lambda>r. map (\<lambda>(x, m, s). x * s + m) (zip r (zip (sc_mean sc) (sc_scale sc)))) (mrows X)))
      else Inl ValueError)"

subsection \<open>Configuration and the external estimators\<close>

text \<open>
  The estimator objects \<open>_get_est_from_name\<close> builds.  \<open>RidgeCV_default\<close> is the
  placeholder \<open>RidgeCV(fit_intercept=False)\<close> of the branch without a main estimator.
\<close>

datatype estimator =
    RidgeCV "real list"
  | LinearRegression
  | ElasticNetCV "real list"
  | RidgeCV_default

record config =
  est_marginal_name :: "string option"
  est_main_name :: "string option"
  marginal_divide_by_d :: bool
  marginal_sign_constraint :: bool
  alphas :: "real list"
  is_regressor :: bool
  is_classifier :: bool

text \<open>
  What the model calls in the library and does not define itself.
  \<^item> \<open>check_X_y\<close>, \<open>check_sample_weight\<close>: input validation; the target comes back
    one-dimensional and the weights one per row.
  \<^item> \<open>unique_inverse\<close>: \<open>np.unique(y, return_inverse=True)\<close>, preceded by
    \<open>check_classification_targets\<close>.
  \<^item> \<open>fit_feature\<close>: \<open>est.fit\<close> on a single column (shape \<open>(n, 1)\<close>); the fitted
    \<open>coef_\<close> has shape \<open>(1,)\<close> and the function returns its entry.
  \<^item> \<open>fit_coef\<close>: \<open>est.fit\<close> on the whole matrix, with or without sample weights;
    returns the fitted \<open>coef_\<close>.
\<close>

record sklearn =
  check_X_y :: "matrix \<Rightarrow> ndarr \<Rightarrow> error + matrix \<times> real list"
  check_sample_weight :: "real list option \<Rightarrow> matrix \<Rightarrow> error + real list"
  unique_inverse :: "real list \<Rightarrow> error + real list \<times> real list"
  fit_feature :: "estimator \<Rightarrow> real list \<Rightarrow> ndarr \<Rightarrow> real list \<Rightarrow> error + real"
  fit_coef :: "estimator \<Rightarrow> matrix \<Rightarrow> ndarr \<Rightarrow> real list option \<Rightarrow> error + real list"

text \<open>\<open>__init__\<close>: a single number given for \<open>alphas\<close> becomes a one-element list.\<close>

datatype alphas_arg = Single real | Several "real list"

definition init ::
  "string option \<Rightarrow> string option \<Rightarrow> bool \<Rightarrow> bool \<Rightarrow> alphas_arg \<Rightarrow> bool \<Rightarrow> bool \<Rightarrow> config" where
  "init marginal_name main_name divide_by_d sign_constraint alphas_in regr clf =
     \<lparr> est_marginal_name = marginal_name,
       est_main_name = main_name,
       marginal_divide_by_d = divide_by_d,
       marginal_sign_constraint = sign_constraint,
       alphas = (case alphas_in of Single a \<Rightarrow> [a] | Several as \<Rightarrow> as),
       is_regressor = regr,
       is_classifier = clf \<rparr>"

text \<open>\<open>_get_est_from_name\<close>: a dictionary lookup; an unknown name raises \<open>KeyError\<close>.\<close>

definition get_est_from_name :: "config \<Rightarrow> string option \<Rightarrow> error + estimator option" where
  "get_est_from_name cfg est_name =
     (if est_name = Some ''ridge'' then Inr (Some (RidgeCV (alphas cfg)))
      else if est_name = Some ''ols'' then Inr (Some LinearRegression)
      else if est_name = Some ''NNLS'' then Inr (Some (ElasticNetCV (alphas cfg)))
      else if est_name = None then Inr None
      else if est_name = Some ''None'' then Inr None
      else Inl KeyError)"

subsection \<open>Fitting the marginal effects\<close>

text \<open>The loop over the features: one fit per column, in order, stopping at an error.\<close>

fun fit_each_feature ::
  "sklearn \<Rightarrow> estimator \<Rightarrow> matrix \<Rightarrow> ndarr \<Rightarrow> real list \<Rightarrow> nat list \<Rightarrow> error + real list" where
  "fit_each_feature env est X y sample_weight [] = Inr []"
| "fit_each_feature env est X y sample_weight (i # rest) =
     (case fit_feature env est (column X i) y sample_weight of
        Inl e \<Rightarrow> Inl e
      | Inr c \<Rightarrow>
          (case fit_each_feature env est X y sample_weight rest of
             Inl e \<Rightarrow> Inl e
           | Inr cs \<Rightarrow> Inr (c # cs)))"

text \<open>
  \<open>np.vstack(coefs).squeeze()\<close> on \<open>d\<close> arrays of shape \<open>(1,)\<close>: no array to stack is
  a \<open>ValueError\<close>, one array squeezes to dimension zero, more give a vector.
\<close>

definition vstack_squeeze :: "real list \<Rightarrow> error + ndarr" where
  "vstack_squeeze cs = (case cs of [] \<Rightarrow> Inl ValueError | [c] \<Rightarrow> Inr (Arr0 c) | _ \<Rightarrow> Inr (Arr1 cs))"

definition fit_marginal ::
  "sklearn \<Rightarrow> config \<Rightarrow> matrix \<Rightarrow> ndarr \<Rightarrow> real list \<Rightarrow> error + ndarr" where
  "fit_marginal env cfg X y sample_weight =
     (case get_est_from_name cfg (est_marginal_name cfg) of
        Inl e \<Rightarrow> Inl e
      | Inr est_marginal \<Rightarrow>
          (case (case est_marginal of
                   None \<Rightarrow> Inr (Arr1 (replicate (ncols X) 0))
                 | Some est \<Rightarrow>
                     (case fit_each_feature env est X y sample_weight [0..<ncols X] of
                        Inl e \<Rightarrow> Inl e
                      | Inr cs \<Rightarrow> vstack_squeeze cs)) of
             Inl e \<Rightarrow> Inl e
           | Inr coef_marginal \<Rightarrow>
               Inr (if marginal_divide_by_d cfg
                    then nd_map (\<lambda>c. c / real (ncols X)) coef_marginal
                    else coef_marginal)))"

subsection \<open>fit and predict\<close>

record model =
  scalar_X :: scaler
  scalar_y :: "scaler option"
  classes :: "real list option"
  coef_marginal :: ndarr
  est_main :: estimator
  coef :: ndarr

text \<open>
  The first half of \<open>fit\<close>: validation, the class relabelling of a classifier, the
  scaling of \<open>X\<close> and (for a regressor) of \<open>y\<close>, and the marginal coefficients.
\<close>

record prepared =
  p_X :: matrix
  p_y :: ndarr
  p_sample_weight :: "real list"
  p_scalar_X :: scaler
  p_scalar_y :: "scaler option"
  p_classes :: "real list option"
  p_coef_marginal :: ndarr

definition scale_target :: "real list \<Rightarrow> scaler \<times> ndarr" where
  "scale_target y =
     (let sc = scaler_fit (column_matrix y)
      in (sc, squeeze_n_by_1 (map (\<lambda>v. (v - hd (sc_mean sc)) / hd (sc_scale sc)) y)))"

definition fit_prepare ::
  "sklearn \<Rightarrow> config \<Rightarrow> matrix \<Rightarrow> ndarr \<Rightarrow> real list option \<Rightarrow> error + prepared" where
  "fit_prepare env cfg X0 y0 sample_weight0 =
     (case check_X_y env X0 y0 of
        Inl e \<Rightarrow> Inl e
      | Inr (X1, y1) \<Rightarrow>
     (case check_sample_weight env sample_weight0 X1 of
        Inl e \<Rightarrow> Inl e
      | Inr sample_weight \<Rightarrow>
     (case (if is_classifier cfg
            then (case unique_inverse env y1 of
                    Inl e \<Rightarrow> Inl e
                  | Inr (cls, y2) \<Rightarrow> Inr (Some cls, y2))
            else Inr (None, y1)) of
        Inl e \<Rightarrow> Inl e
      | Inr (cls, y2) \<Rightarrow>
     (let sx = scaler_fit X1 in
      case scaler_transform sx X1 of
        Inl e \<Rightarrow> Inl e
      | Inr X \<Rightarrow>
     (let (sy, y) = (if is_regressor cfg
                     then (Some (fst (scale_target y2)), snd (scale_target y2))
                     else (None, Arr1 y2)) in
      case fit_marginal env cfg X y sample_weight of
        Inl e \<Rightarrow> Inl e
      | Inr cm \<Rightarrow>
          Inr \<lparr> p_X = X, p_y = y, p_sample_weight = sample_weight, p_scalar_X = sx,
                p_scalar_y = sy, p_classes = cls, p_coef_marginal = cm \<rparr>)))))"

definition finish :: "prepared \<Rightarrow> estimator \<Rightarrow> ndarr \<Rightarrow> model" where
  "finish p est c =
     \<lparr> scalar_X = p_scalar_X p, scalar_y = p_scalar_y p, classes = p_classes p,
       coef_marginal = p_coef_marginal p, est_main = est, coef = c \<rparr>"

text \<open>
  The second half of \<open>fit\<close>: the main estimator is looked up first, then one of the
  three branches runs.
\<close>

definition fit_main :: "sklearn \<Rightarrow> config \<Rightarrow> prepared \<Rightarrow> error + model" where
  "fit_main env cfg p =
     (case get_est_from_name cfg (est_main_name cfg) of
        Inl e \<Rightarrow> Inl e
      | Inr main \<Rightarrow>
          if marginal_sign_constraint cfg then
            (if est_main_name cfg \<noteq> Some ''NNLS'' then Inl AssertionError
             else
               (let coef_signs = nd_map sign (p_coef_marginal p) in
                case mat_times (p_X p) coef_signs of
                  Inl e \<Rightarrow> Inl e
                | Inr X \<Rightarrow>
                    (case main of
                       None \<Rightarrow> Inl AttributeError
                     | Some est \<Rightarrow>
                         (case fit_coef env est X (p_y p) (Some (p_sample_weight p)) of
                            Inl e \<Rightarrow> Inl e
                          | Inr c \<Rightarrow>
                              (case nd_binop (\<lambda>a b. a * b) (Arr1 c) coef_signs of
                                 Inl e \<Rightarrow> Inl e
                               | Inr c' \<Rightarrow> Inr (finish p est c'))))))
          else
            (case main of
               None \<Rightarrow>
                 (case nd_take 5 (p_y p) of
                    Inl e \<Rightarrow> Inl e
                  | Inr y5 \<Rightarrow>
                      (case fit_coef env RidgeCV_default (take_rows 5 (p_X p)) y5 None of
                         Inl e \<Rightarrow> Inl e
                       | Inr c \<Rightarrow> Inr (finish p RidgeCV_default (p_coef_marginal p))))
             | Some est \<Rightarrow>
                 (case matmul (p_X p) (p_coef_marginal p) of
                    Inl e \<Rightarrow> Inl e
                  | Inr preds_marginal \<Rightarrow>
                      (case nd_binop (\<lambda>a b. a - b) (p_y p) preds_marginal of
                         Inl e \<Rightarrow> Inl e
                       | Inr residuals \<Rightarrow>
                           (case fit_coef env est (p_X p) residuals (Some (p_sample_weight p)) of
                              Inl e \<Rightarrow> Inl e
                            | Inr c \<Rightarrow>
                                (case nd_binop (\<lambda>a b. a + b) (Arr1 c) (p_coef_marginal p) of
                                   Inl e \<Rightarrow> Inl e
                                 | Inr c' \<Rightarrow> Inr (finish p est c')))))))"

definition fit ::
  "sklearn \<Rightarrow> config \<Rightarrow> matrix \<Rightarrow> ndarr \<Rightarrow> real list option \<Rightarrow> error + model" where
  "fit env cfg X y sample_weight =
     (case fit_prepare env cfg X y sample_weight of
        Inl e \<Rightarrow> Inl e
      | Inr p \<Rightarrow> fit_main env cfg p)"

text \<open>
  \<open>predict\<close>.  The main estimator is a linear model fitted without intercept, whose
  \<open>predict\<close> is the matrix product with \<open>coef_\<close>.  Without a stored target scaler
  (the model is not a regressor) the attribute lookup fails.
\<close>

definition inverse_scale :: "scaler \<Rightarrow> ndarr \<Rightarrow> error + ndarr" where
  "inverse_scale sc pred =
     (case pred of
        Arr0 v \<Rightarrow> Inl ValueError
      | Arr1 vs \<Rightarrow>
          (case scaler_inverse_transform sc (column_matrix vs) of
             Inl e \<Rightarrow> Inl e
           | Inr M \<Rightarrow> Inr (squeeze_n_by_1 (concat (mrows M)))))"

definition predict :: "model \<Rightarrow> matrix \<Rightarrow> error + ndarr" where
  "predict m X0 =
     (case scaler_transform (scalar_X m) X0 of
        Inl e \<Rightarrow> Inl e
      | Inr X \<Rightarrow>
          (case matmul X (coef m) of
             Inl e \<Rightarrow> Inl e
           | Inr pred \<Rightarrow>
               (case scalar_y m of
                  None \<Rightarrow> Inl AttributeError
                | Some sy \<Rightarrow> inverse_scale sy pred)))"


subsection \<open>A small instance of the library interface\<close>

text \<open>
  To run the model on concrete data the library functions are instantiated: validation
  accepts a one-dimensional target with one entry per row of a non-empty matrix,
  missing sample weights become ones, and every estimator returns the least-squares
  slope of each column taken alone (no penalty, weights ignored), clipped at zero for
  the non-negative estimator.
\<close>

definition slope :: "real list \<Rightarrow> real list \<Rightarrow> real" where
  "slope x y = dot x y / dot x x"

definition demo_sklearn :: sklearn where
  "demo_sklearn =
     \<lparr> check_X_y = (\<lambda>X y. case y of
                          Arr0 v \<Rightarrow> Inl ValueError
                        | Arr1 ys \<Rightarrow> if length ys = nrows X \<and> 0 < nrows X \<and> 0 < ncols X
                                    then Inr (X, ys) else Inl ValueError),
       check_sample_weight = (\<lambda>w X. case w of
                          None \<Rightarrow> Inr (replicate (nrows X) 1)
                        | Some ws \<Rightarrow> if length ws = nrows X then Inr ws else Inl ValueError),
       unique_inverse = (\<lambda>y. Inr (remdups y, y)),
       fit_feature = (\<lambda>est x y w. case y of
                          Arr0 v \<Rightarrow> Inl LibraryError
                        | Arr1 ys \<Rightarrow> Inr (slope x ys)),
       fit_coef = (\<lambda>est X y w. case y of
                          Arr0 v \<Rightarrow> Inl LibraryError
                        | Arr1 ys \<Rightarrow>
                            Inr (map (\<lambda>i. case est of
                                          ElasticNetCV a \<Rightarrow> max 0 (slope (column X i) ys)
                                        | _ \<Rightarrow> slope (column X i) ys) [0..<ncols X])) \<rparr>"

text \<open>The default configuration of the regressor class, and two samples of two features.\<close>

definition default_regressor :: config where
  "default_regressor =
     init (Some ''ridge'') (Some ''ridge'') True False
       (Several [1 / 10, 1, 10, 100, 1000, 10000]) True False"

definition X_demo :: matrix where
  "X_demo = Matrix 2 [[0, 0], [0, 2], [2, 0], [2, 2]]"

definition y_demo :: ndarr where
  "y_demo = Arr1 [- 1, 1, 7, 1]"

definition X_one_feature :: matrix where
  "X_one_feature = Matrix 1 [[0], [0], [2], [2]]"

definition signed_nnls :: config where
  "signed_nnls = default_regressor \<lparr> est_main_name := Some ''NNLS'', marginal_sign_constraint := True \<rparr>"

definition signed_lasso :: config where
  "signed_lasso = default_regressor \<lparr> est_main_name := Some ''lasso'', marginal_sign_constraint := True \<rparr>"

definition no_main :: config where
  "no_main = default_regressor \<lparr> est_main_name := None \<rparr>"

text \<open>
  The property of the sign-constrained fit, in the specification's words: every final
  coefficient is zero or has the sign of its marginal coefficient.
\<close>

fun same_sign_or_zero :: "ndarr \<Rightarrow> ndarr \<Rightarrow> bool" where
  "same_sign_or_zero (Arr1 cs) (Arr1 ms) =
     (length cs = length ms \<and> list_all2 (\<lambda>c m. c = 0 \<or> sign c = sign m) cs ms)"
| "same_sign_or_zero (Arr1 cs) (Arr0 m) = list_all (\<lambda>c. c = 0 \<or> sign c = sign m) cs"
| "same_sign_or_zero (Arr0 c) (Arr0 m) = (c = 0 \<or> sign c = sign m)"
| "same_sign_or_zero (Arr0 c) (Arr1 ms) = list_all (\<lambda>m. c = 0 \<or> sign c = sign m) ms"

text \<open>What the first half of \<open>fit\<close> produces on the sample data.\<close>

definition prepared_demo :: prepared where
  "prepared_demo =
     \<lparr> p_X = Matrix 2 [[- 1, - 1], [- 1, 1], [1, - 1], [1, 1]],
       p_y = Arr1 [- 1, - (1 / 3), 5 / 3, - (1 / 3)],
       p_sample_weight = [1, 1, 1, 1],
       p_scalar_X = \<lparr> sc_mean = [1, 1], sc_scale = [1, 1] \<rparr>,
       p_scalar_y = Some \<lparr> sc_mean = [2], sc_scale = [3] \<rparr>,
       p_classes = None,
       p_coef_marginal = Arr1 [1 / 3, - (1 / 6)] \<rparr>"


section \<open>The importance pipeline\<close>

subsection \<open>Scores\<close>

text \<open>
  An importance score is a floating-point number.  Finite values are taken as exact
  reals (rounding and overflow are not modelled); the two infinities and not-a-number
  follow the IEEE rules that \<open>nanmean\<close> relies on.
\<close>

datatype fl = Fin real | PInf | NInf | NaN

fun fl_add :: "fl \<Rightarrow> fl \<Rightarrow> fl" where
  "fl_add NaN b = NaN"
| "fl_add a NaN = NaN"
| "fl_add PInf NInf = NaN"
| "fl_add NInf PInf = NaN"
| "fl_add PInf b = PInf"
| "fl_add a PInf = PInf"
| "fl_add NInf b = NInf"
| "fl_add a NInf = NInf"
| "fl_add (Fin a) (Fin b) = Fin (a + b)"

fun fl_neg :: "fl \<Rightarrow> fl" where
  "fl_neg (Fin a) = Fin (- a)"
| "fl_neg PInf = NInf"
| "fl_neg NInf = PInf"
| "fl_neg NaN = NaN"

definition fl_sub :: "fl \<Rightarrow> fl \<Rightarrow> fl" where
  "fl_sub a b = fl_add a (fl_neg b)"

text \<open>Division of a float by a count (a non-negative integer).\<close>

fun fl_div_count :: "fl \<Rightarrow> nat \<Rightarrow> fl" where
  "fl_div_count NaN n = NaN"
| "fl_div_count PInf n = PInf"
| "fl_div_count NInf n = NInf"
| "fl_div_count (Fin a) n =
     (if n = 0 then (if a = 0 then NaN else if 0 < a then PInf else NInf)
      else Fin (a / real n))"

text \<open>
  \<open>np.nanmean\<close> along one column of member scores: not-a-number entries are replaced
  by zero in the sum and left out of the count.
\<close>

definition nanmean_column :: "fl list \<Rightarrow> fl" where
  "nanmean_column col =
     (let kept = filter (\<lambda>v. v \<noteq> NaN) col
      in fl_div_count (foldl fl_add (Fin 0) kept) (length kept))"

subsection \<open>Matrix helpers\<close>

definition transpose_m :: "matrix \<Rightarrow> matrix" where
  "transpose_m M = Matrix (nrows M) (map (\<lambda>j. column M j) [0..<ncols M])"

text \<open>\<open>np.hstack([X, np.ones((n, 1))])\<close>.\<close>

definition append_ones :: "matrix \<Rightarrow> matrix" where
  "append_ones X = Matrix (ncols X + 1) (map (\<lambda>r. r @ [1]) (mrows X))"

definition mat_mul :: "matrix \<Rightarrow> matrix \<Rightarrow> error + matrix" where
  "mat_mul A B =
     (if ncols A = nrows B
      then Inr (Matrix (ncols B) (map (\<lambda>r. map (\<lambda>j. dot r (column B j)) [0..<ncols B]) (mrows A)))
      else Inl ValueError)"

text \<open>Broadcasting of two lists along one axis: equal lengths, or one of length one.\<close>

definition bcast :: "'a list \<Rightarrow> 'a list \<Rightarrow> error + ('a \<times> 'a) list" where
  "bcast xs ys =
     (if length xs = length ys then Inr (zip xs ys)
      else if length xs = 1 then Inr (map (\<lambda>y. (hd xs, y)) ys)
      else if length ys = 1 then Inr (map (\<lambda>x. (x, hd ys)) xs)
      else Inl ValueError)"

definition bcast_dim :: "nat \<Rightarrow> nat \<Rightarrow> error + nat" where
  "bcast_dim a b =
     (if a = b then Inr a else if a = 1 then Inr b else if b = 1 then Inr a else Inl ValueError)"

text \<open>Elementwise product of two two-dimensional arrays, with broadcasting.\<close>

definition mat_elementwise :: "(real \<Rightarrow> real \<Rightarrow> real) \<Rightarrow> matrix \<Rightarrow> matrix \<Rightarrow> error + matrix" where
  "mat_elementwise f A B =
     (case bcast_dim (ncols A) (ncols B) of
        Inl e \<Rightarrow> Inl e
      | Inr c \<Rightarrow>
          (case bcast (mrows A) (mrows B) of
             Inl e \<Rightarrow> Inl e
           | Inr rs \<Rightarrow>
               Inr (Matrix c
                 (map (\<lambda>(ra, rb).
                    if length ra = length rb then map2 f ra rb
                    else if length ra = 1 then map (f (hd ra)) rb
                    else map (\<lambda>x. f x (hd rb)) ra) rs))))"

definition sum_axis1 :: "matrix \<Rightarrow> real list" where
  "sum_axis1 M = map sum_list (mrows M)"

definition sum_axis0 :: "matrix \<Rightarrow> real list" where
  "sum_axis0 M = map (\<lambda>j. sum_list (column M j)) [0..<ncols M]"

text \<open>
  \<open>M / v\<close> with \<open>v\<close> broadcast along the rows; a zero divisor leaves the reals.
\<close>

fun nd_list :: "ndarr \<Rightarrow> real list" where
  "nd_list (Arr0 a) = [a]"
| "nd_list (Arr1 xs) = xs"

definition mat_divide :: "matrix \<Rightarrow> ndarr \<Rightarrow> error + matrix" where
  "mat_divide M v =
     (case mat_times M (nd_map inverse v) of
        Inl e \<Rightarrow> Inl e
      | Inr Q \<Rightarrow> if 0 \<in> set (nd_list v) \<and> mrows M \<noteq> [] then Inl NonFinite else Inr Q)"

text \<open>Python indexing: a negative index counts from the end.\<close>

definition py_index :: "nat \<Rightarrow> int \<Rightarrow> error + nat" where
  "py_index n i =
     (if 0 \<le> i \<and> i < int n then Inr (nat i)
      else if - int n \<le> i \<and> i < 0 then Inr (nat (int n + i))
      else Inl IndexError)"

fun collect :: "(error + 'a) list \<Rightarrow> error + 'a list" where
  "collect [] = Inr []"
| "collect (r # rs) =
     (case r of
        Inl e \<Rightarrow> Inl e
      | Inr x \<Rightarrow> (case collect rs of Inl e \<Rightarrow> Inl e | Inr xs \<Rightarrow> Inr (x # xs)))"

text \<open>\<open>M[:, idx]\<close> and \<open>M[idx]\<close> with a list of indices.\<close>

definition select_columns :: "matrix \<Rightarrow> int list \<Rightarrow> error + matrix" where
  "select_columns M idx =
     (case collect (map (py_index (ncols M)) idx) of
        Inl e \<Rightarrow> Inl e
      | Inr js \<Rightarrow> Inr (Matrix (length js) (map (\<lambda>r. map (\<lambda>j. r ! j) js) (mrows M))))"

definition select_rows :: "matrix \<Rightarrow> nat list \<Rightarrow> error + matrix" where
  "select_rows M idx =
     (if list_all (\<lambda>i. i < nrows M) idx
      then Inr (Matrix (ncols M) (map (\<lambda>i. mrows M ! i) idx))
      else Inl IndexError)"

definition select_entries :: "real list \<Rightarrow> nat list \<Rightarrow> error + real list" where
  "select_entries ys idx =
     (if list_all (\<lambda>i. i < length ys) idx then Inr (map (\<lambda>i. ys ! i) idx) else Inl IndexError)"

subsection \<open>Block-partitioned data\<close>

text \<open>
  Modelled from the spec: the class \<open>BlockPartitionedData\<close> of
  \<open>imodels.importance.representation_cleaned\<close> is not among the sources.  The design
  matrix is kept as one block of columns per original feature, all blocks with the same
  rows; the accessors return a block, the column indices of a block inside the whole
  matrix, and the same for the complement of a block.
\<close>

datatype blocked = Blocked (n_samples: nat) (data_blocks: "matrix list")

definition n_blocks :: "blocked \<Rightarrow> nat" where
  "n_blocks bd = length (data_blocks bd)"

definition hstack :: "nat \<Rightarrow> matrix list \<Rightarrow> matrix" where
  "hstack n Ms =
     Matrix (sum_list (map ncols Ms)) (map (\<lambda>i. concat (map (\<lambda>M. mrows M ! i) Ms)) [0..<n])"

definition get_all_data :: "blocked \<Rightarrow> matrix" where
  "get_all_data bd = hstack (n_samples bd) (data_blocks bd)"

definition block_start :: "blocked \<Rightarrow> nat \<Rightarrow> nat" where
  "block_start bd k = sum_list (map ncols (take k (data_blocks bd)))"

definition block_range :: "blocked \<Rightarrow> nat \<Rightarrow> nat list" where
  "block_range bd k = [block_start bd k ..< block_start bd k + ncols (data_blocks bd ! k)]"

definition get_block_indices :: "blocked \<Rightarrow> nat \<Rightarrow> error + nat list" where
  "get_block_indices bd k = (if k < n_blocks bd then Inr (block_range bd k) else Inl KeyError)"

definition get_block :: "blocked \<Rightarrow> nat \<Rightarrow> error + matrix" where
  "get_block bd k = (if k < n_blocks bd then Inr (data_blocks bd ! k) else Inl KeyError)"

definition other_blocks :: "blocked \<Rightarrow> nat \<Rightarrow> nat list" where
  "other_blocks bd k = filter (\<lambda>j. j \<noteq> k) [0..<n_blocks bd]"

definition get_all_except_block_indices :: "blocked \<Rightarrow> nat \<Rightarrow> error + nat list" where
  "get_all_except_block_indices bd k =
     (if k < n_blocks bd then Inr (concat (map (block_range bd) (other_blocks bd k)))
      else Inl KeyError)"

definition get_all_except_block :: "blocked \<Rightarrow> nat \<Rightarrow> error + matrix" where
  "get_all_except_block bd k =
     (if k < n_blocks bd
      then Inr (hstack (n_samples bd) (map (\<lambda>j. data_blocks bd ! j) (other_blocks bd k)))
      else Inl KeyError)"

definition blocked_train_test_split ::
  "blocked \<Rightarrow> nat list \<Rightarrow> nat list \<Rightarrow> error + blocked \<times> blocked" where
  "blocked_train_test_split bd train_indices test_indices =
     (case collect (map (\<lambda>M. select_rows M train_indices) (data_blocks bd)) of
        Inl e \<Rightarrow> Inl e
      | Inr train \<Rightarrow>
          (case collect (map (\<lambda>M. select_rows M test_indices) (data_blocks bd)) of
             Inl e \<Rightarrow> Inl e
           | Inr test \<Rightarrow>
               Inr (Blocked (length train_indices) train, Blocked (length test_indices) test)))"


subsection \<open>Estimators of the importance pipeline\<close>

text \<open>
  An attribute of a Python object is present or absent (\<open>hasattr\<close>).  The wrapped
  estimator exposes its penalty as \<open>alpha\<close> (ridge, Huber) or as \<open>C\<close> (logistic
  regression), or not at all; \<open>epsilon\<close> is the Huber threshold; \<open>coef_\<close> and
  \<open>intercept_\<close> exist once the estimator is fitted.  \<open>coef_\<close> is one-dimensional
  or, for a classifier, has one row per class.
\<close>

datatype 'a attr = Absent | Attr 'a

datatype coefs = Coef1 "real list" | Coef2 "real list list"

record glm_estimator =
  class_name :: string
  param_alpha :: "real option attr"
  param_C :: "fl attr"
  param_epsilon :: "real attr"
  fitted :: "(coefs \<times> ndarr) option"

text \<open>
  The numerical library: \<open>estimator.fit(X, y)\<close>, which returns the fitted estimator,
  and \<open>np.linalg.inv\<close>.
\<close>

record numlib =
  glm_fit :: "glm_estimator \<Rightarrow> matrix option \<Rightarrow> real list option \<Rightarrow> error + glm_estimator"
  linalg_inv :: "matrix \<Rightarrow> error + matrix"

text \<open>\<open>extract_coef_and_intercept\<close>, without and with \<open>merge\<close>.\<close>

definition extract_coef_and_intercept :: "glm_estimator \<Rightarrow> error + real list \<times> ndarr" where
  "extract_coef_and_intercept est =
     (case fitted est of
        None \<Rightarrow> Inl AttributeError
      | Some (Coef1 c, b) \<Rightarrow> Inr (c, b)
      | Some (Coef2 rows, b) \<Rightarrow>
          (case b of
             Arr0 v \<Rightarrow> Inl IndexError
           | Arr1 vs \<Rightarrow> (case vs of [] \<Rightarrow> Inl IndexError | v # rest \<Rightarrow> Inr (concat rows, Arr0 v))))"

definition extract_merged :: "glm_estimator \<Rightarrow> error + real list" where
  "extract_merged est =
     (case extract_coef_and_intercept est of
        Inl e \<Rightarrow> Inl e
      | Inr (c, b) \<Rightarrow> Inr (c @ nd_list b))"

text \<open>
  The loss derivatives and the scorer are callables of two arguments, or of three when
  they take the Huber threshold; a call with the wrong number of arguments is a
  \<open>TypeError\<close>.
\<close>

datatype lossfn =
    Loss2 "real list \<Rightarrow> real list \<Rightarrow> error + ndarr"
  | Loss3 "real list \<Rightarrow> real list \<Rightarrow> real \<Rightarrow> error + ndarr"

datatype scorer =
    Scorer2 "real list \<Rightarrow> real list \<Rightarrow> error + real"
  | Scorer3 "real list \<Rightarrow> real list \<Rightarrow> real \<Rightarrow> error + real"

definition call_loss :: "lossfn \<Rightarrow> real attr \<Rightarrow> real list \<Rightarrow> real list \<Rightarrow> error + ndarr" where
  "call_loss f eps y preds =
     (case eps of
        Attr e \<Rightarrow> (case f of Loss3 g \<Rightarrow> g y preds e | Loss2 g \<Rightarrow> Inl TypeError)
      | Absent \<Rightarrow> (case f of Loss2 g \<Rightarrow> g y preds | Loss3 g \<Rightarrow> Inl TypeError))"

definition call_scorer :: "scorer \<Rightarrow> real attr \<Rightarrow> real list \<Rightarrow> real list \<Rightarrow> error + real" where
  "call_scorer f eps y preds =
     (case eps of
        Attr e \<Rightarrow> (case f of Scorer3 g \<Rightarrow> g y preds e | Scorer2 g \<Rightarrow> Inl TypeError)
      | Absent \<Rightarrow> (case f of Scorer2 g \<Rightarrow> g y preds | Scorer3 g \<Rightarrow> Inl TypeError))"

text \<open>\<open>huber_loss\<close>: the mean of the per-sample losses, accumulated in a loop.\<close>

fun huber_total :: "real \<Rightarrow> real list \<Rightarrow> real list \<Rightarrow> real \<Rightarrow> error + real" where
  "huber_total epsilon [] preds total_loss = Inr total_loss"
| "huber_total epsilon (yi # y) [] total_loss = Inl IndexError"
| "huber_total epsilon (yi # y) (p # preds) total_loss =
     (let sample_absolute_error = \<bar>yi - p\<bar>
      in if sample_absolute_error < epsilon
         then huber_total epsilon y preds (total_loss + (yi - p)\<^sup>2 / 2)
         else huber_total epsilon y preds
                (total_loss + (epsilon * sample_absolute_error - epsilon\<^sup>2 / 2)))"

definition huber_loss :: "real list \<Rightarrow> real list \<Rightarrow> real \<Rightarrow> error + real" where
  "huber_loss y preds epsilon =
     (case huber_total epsilon y preds 0 of
        Inl e \<Rightarrow> Inl e
      | Inr total_loss \<Rightarrow>
          if length y = 0 then Inl ZeroDivisionError else Inr (total_loss / real (length y)))"

subsection \<open>The approximate leave-one-out calculator\<close>

text \<open>
  The attributes of \<open>GlmAlooCalculator\<close> (\<open>selected_alpha\<close> is \<open>alpha_\<close>), and the
  warnings issued while one of its methods runs.
\<close>

record aloo =
  estimator_of :: glm_estimator
  alpha_grid :: "real list"
  link_fn :: "real \<Rightarrow> real"
  l_dot :: lossfn
  l_doubledot :: lossfn
  r_doubledot :: "(real list \<Rightarrow> ndarr) option"
  trim_of :: "real option"
  hyperparameter_scorer :: scorer
  selected_alpha :: "real option"
  loo_fitted_parameters :: "matrix option"
  calc_warnings :: "string list"

text \<open>\<open>_trim_values\<close> and \<open>score_to_pred\<close>.\<close>

definition trim_values :: "real option \<Rightarrow> real list \<Rightarrow> error + real list" where
  "trim_values trim vs =
     (case trim of
        None \<Rightarrow> Inr vs
      | Some t \<Rightarrow>
          if 0 < t \<and> t < 1 / 2 then Inr (map (\<lambda>v. min (max v t) (1 - t)) vs)
          else Inl AssertionError)"

definition score_to_pred :: "aloo \<Rightarrow> real list \<Rightarrow> error + real list" where
  "score_to_pred s score = trim_values (trim_of s) (map (link_fn s) score)"

text \<open>
  The head of \<open>get_aloo_fitted_parameters\<close>: the penalty is written into the wrapped
  estimator; an estimator with neither attribute is left alone and the local
  \<open>alpha\<close> becomes zero.  \<open>alpha\<close> is a \<open>numpy\<close> scalar, as the entries of the
  alpha grid are, so \<open>1/alpha\<close> at zero is an infinity.
\<close>

definition set_penalty :: "glm_estimator \<Rightarrow> real option \<Rightarrow> error + glm_estimator \<times> real option" where
  "set_penalty est alpha =
     (case param_alpha est of
        Attr old \<Rightarrow> Inr (est \<lparr> param_alpha := Attr alpha \<rparr>, alpha)
      | Absent \<Rightarrow>
          (case param_C est of
             Attr old \<Rightarrow>
               (case alpha of
                  None \<Rightarrow> Inl TypeError
                | Some a \<Rightarrow> Inr (est \<lparr> param_C := Attr (if a = 0 then PInf else Fin (1 / a)) \<rparr>, alpha))
           | Absent \<Rightarrow> Inr (est, Some 0)))"

text \<open>
  The information matrix \<open>J\<close>: the curvature of the loss, plus \<open>alpha\<close> times the
  curvature of the penalty with the intercept's entry set to zero.
\<close>

definition set_last_zero :: "real list \<Rightarrow> error + real list" where
  "set_last_zero vs = (if vs = [] then Inl IndexError else Inr (butlast vs @ [0]))"

definition diag :: "real list \<Rightarrow> matrix" where
  "diag vs =
     Matrix (length vs)
       (map (\<lambda>i. map (\<lambda>j. if i = j then vs ! i else 0) [0..<length vs]) [0..<length vs])"

definition add_in_place :: "matrix \<Rightarrow> matrix \<Rightarrow> error + matrix" where
  "add_in_place J D =
     (case mat_elementwise (\<lambda>a b. a + b) J D of
        Inl e \<Rightarrow> Inl e
      | Inr S \<Rightarrow> if nrows S = nrows J \<and> ncols S = ncols J then Inr S else Inl ValueError)"

definition information_matrix ::
  "aloo \<Rightarrow> matrix \<Rightarrow> real list \<Rightarrow> ndarr \<Rightarrow> real option \<Rightarrow> error + matrix" where
  "information_matrix s X1 augmented_coef l_doubledot_vals alpha =
     (case mat_times (transpose_m X1) l_doubledot_vals of
        Inl e \<Rightarrow> Inl e
      | Inr W \<Rightarrow>
     (case mat_mul W X1 of
        Inl e \<Rightarrow> Inl e
      | Inr J \<Rightarrow>
     (case r_doubledot s of
        None \<Rightarrow> Inr J
      | Some rdd \<Rightarrow>
          (case nd_binop (\<lambda>a b. a * b) (rdd augmented_coef)
                  (Arr1 (replicate (length augmented_coef) 1)) of
             Inl e \<Rightarrow> Inl e
           | Inr r_doubledot_vals \<Rightarrow>
               (case set_last_zero (nd_list r_doubledot_vals) of
                  Inl e \<Rightarrow> Inl e
                | Inr rv \<Rightarrow>
                    (case alpha of
                       None \<Rightarrow> Inl TypeError
                     | Some a \<Rightarrow> add_in_place J (diag (map (\<lambda>r. a * r) rv))))))))"

text \<open>
  The body of \<open>get_aloo_fitted_parameters\<close> after the penalty is set: the fit of a
  copy of the estimator and the closed-form leave-one-out coefficients, one column per
  sample.  It returns the matrix and the fitted copy.
\<close>

definition loo_coefficients ::
  "numlib \<Rightarrow> aloo \<Rightarrow> glm_estimator \<Rightarrow> matrix option \<Rightarrow> real list option \<Rightarrow> real option
     \<Rightarrow> error + matrix \<times> glm_estimator" where
  "loo_coefficients lib s est X_opt y_opt alpha =
     (case glm_fit lib est X_opt y_opt of
        Inl e \<Rightarrow> Inl e
      | Inr fitted_est \<Rightarrow>
     (case X_opt of
        None \<Rightarrow> Inl AttributeError
      | Some X \<Rightarrow>
     (let X1 = append_ones X in
      case extract_merged fitted_est of
        Inl e \<Rightarrow> Inl e
      | Inr augmented_coef \<Rightarrow>
     (case matmul X1 (Arr1 augmented_coef) of
        Inl e \<Rightarrow> Inl e
      | Inr scores \<Rightarrow>
     (let orig_preds = map (link_fn s) (nd_list scores) in
      case y_opt of
        None \<Rightarrow> Inl TypeError
      | Some y \<Rightarrow>
     (case call_loss (l_doubledot s) (param_epsilon est) y orig_preds of
        Inl e \<Rightarrow> Inl e
      | Inr l_doubledot_vals \<Rightarrow>
     (case information_matrix s X1 augmented_coef l_doubledot_vals alpha of
        Inl e \<Rightarrow> Inl e
      | Inr J \<Rightarrow>
     (case linalg_inv lib J of
        Inl e \<Rightarrow> Inl e
      | Inr J_inv \<Rightarrow>
     (case mat_mul J_inv (transpose_m X1) of
        Inl e \<Rightarrow> Inl e
      | Inr normal_eqn_mat \<Rightarrow>
     (case mat_elementwise (\<lambda>a b. a * b) (transpose_m X1) normal_eqn_mat of
        Inl e \<Rightarrow> Inl e
      | Inr P \<Rightarrow>
     (case nd_binop (\<lambda>a b. a * b) (Arr1 (sum_axis0 P)) l_doubledot_vals of
        Inl e \<Rightarrow> Inl e
      | Inr h_vals \<Rightarrow>
     (case call_loss (l_dot s) (param_epsilon est) y orig_preds of
        Inl e \<Rightarrow> Inl e
      | Inr l_dot_vals \<Rightarrow>
     (case mat_times normal_eqn_mat l_dot_vals of
        Inl e \<Rightarrow> Inl e
      | Inr numerator \<Rightarrow>
     (case mat_divide numerator (nd_map (\<lambda>h. 1 - h) h_vals) of
        Inl e \<Rightarrow> Inl e
      | Inr correction \<Rightarrow>
     (case mat_elementwise (\<lambda>a b. a + b) (column_matrix augmented_coef) correction of
        Inl e \<Rightarrow> Inl e
      | Inr loo \<Rightarrow> Inr (loo, fitted_est))))))))))))))))"

text \<open>
  \<open>get_aloo_fitted_parameters(X, y, alpha, cache)\<close>.  A stored matrix is returned as
  it is.  Otherwise the penalty is set on the wrapped estimator, the coefficients are
  computed, and with \<open>cache\<close> the matrix and the fitted copy are stored.
\<close>

definition get_aloo_fitted_parameters ::
  "numlib \<Rightarrow> aloo \<Rightarrow> matrix option \<Rightarrow> real list option \<Rightarrow> real option \<Rightarrow> bool
     \<Rightarrow> error + matrix \<times> aloo" where
  "get_aloo_fitted_parameters lib s X y alpha cache =
     (case loo_fitted_parameters s of
        Some stored \<Rightarrow> Inr (stored, s)
      | None \<Rightarrow>
          (case set_penalty (estimator_of s) alpha of
             Inl e \<Rightarrow> Inl e
           | Inr (est, alpha_used) \<Rightarrow>
               (case loo_coefficients lib s est X y alpha_used of
                  Inl e \<Rightarrow> Inl e
                | Inr (loo, fitted_est) \<Rightarrow>
                    if cache
                    then Inr (loo, s \<lparr> estimator_of := fitted_est, loo_fitted_parameters := Some loo \<rparr>)
                    else Inr (loo, s \<lparr> estimator_of := est \<rparr>))))"

text \<open>
  \<open>np.sum(params.T * X1, axis=1)\<close>: one score per sample, each from that sample's own
  coefficient vector.
\<close>

definition per_sample_scores :: "matrix \<Rightarrow> matrix \<Rightarrow> error + real list" where
  "per_sample_scores params_T X1 =
     (case mat_elementwise (\<lambda>a b. a * b) params_T X1 of
        Inl e \<Rightarrow> Inl e
      | Inr P \<Rightarrow> Inr (sum_axis1 P))"

text \<open>\<open>get_aloocv_alpha\<close>: one score per candidate, then the first minimum.\<close>

fun cv_scores :: "numlib \<Rightarrow> aloo \<Rightarrow> matrix \<Rightarrow> real list \<Rightarrow> real list \<Rightarrow> error + real list \<times> aloo" where
  "cv_scores lib s X y [] = Inr ([], s)"
| "cv_scores lib s X y (a # grid) =
     (case get_aloo_fitted_parameters lib s (Some X) (Some y) (Some a) False of
        Inl e \<Rightarrow> Inl e
      | Inr (loo, s1) \<Rightarrow>
     (case per_sample_scores (transpose_m loo) (append_ones X) of
        Inl e \<Rightarrow> Inl e
      | Inr sc \<Rightarrow>
     (case score_to_pred s1 sc of
        Inl e \<Rightarrow> Inl e
      | Inr preds \<Rightarrow>
     (case call_scorer (hyperparameter_scorer s1) (param_epsilon (estimator_of s1)) y preds of
        Inl e \<Rightarrow> Inl e
      | Inr v \<Rightarrow>
     (case cv_scores lib s1 X y grid of
        Inl e \<Rightarrow> Inl e
      | Inr (vs, s2) \<Rightarrow> Inr (v # vs, s2))))))"

definition argmin :: "real list \<Rightarrow> nat" where
  "argmin vs = length (takeWhile (\<lambda>v. v \<noteq> Min (set vs)) vs)"

definition get_aloocv_alpha :: "numlib \<Rightarrow> aloo \<Rightarrow> matrix \<Rightarrow> real list \<Rightarrow> error + real \<times> aloo" where
  "get_aloocv_alpha lib s X y =
     (case cv_scores lib s X y (alpha_grid s) of
        Inl e \<Rightarrow> Inl e
      | Inr (vs, s1) \<Rightarrow>
          if vs = [] then Inl ValueError
          else Inr (alpha_grid s ! argmin vs, s1 \<lparr> selected_alpha := Some (alpha_grid s ! argmin vs) \<rparr>))"


subsection \<open>The leave-one-out partial-prediction model\<close>

text \<open>
  What \<open>_fit_partial_predictions\<close> returns beside the predictions: the Python list
  \<open>[intercept]\<close>, a one-dimensional array, or a matrix with one row per sample.
\<close>

datatype params = PList "ndarr list" | PArr1 "real list" | PArr2 matrix

record loo_ppm =
  ppm_estimator :: glm_estimator
  aloo_calculator :: aloo
  ppm_trim :: "real option"
  fixed_intercept :: bool
  ppm_alpha :: "real option"
  warnings_issued :: "string list"

text \<open>
  The constructors.  \<open>GenericLOOPPM.__init__\<close> hands a copy of the estimator to a new
  calculator; the subclasses fix the estimator and the loss.  The alpha grid is an
  argument (its defaults are \<open>numpy\<close> grids).
\<close>

definition GlmAlooCalculator ::
  "glm_estimator \<Rightarrow> real list \<Rightarrow> (real \<Rightarrow> real) \<Rightarrow> lossfn \<Rightarrow> lossfn \<Rightarrow> (real list \<Rightarrow> ndarr) option
     \<Rightarrow> scorer \<Rightarrow> real option \<Rightarrow> aloo" where
  "GlmAlooCalculator est grid link ld ldd rdd sc trim =
     \<lparr> estimator_of = est, alpha_grid = grid, link_fn = link, l_dot = ld, l_doubledot = ldd,
       r_doubledot = rdd, trim_of = trim, hyperparameter_scorer = sc, selected_alpha = None,
       loo_fitted_parameters = None, calc_warnings = [] \<rparr>"

definition GenericLOOPPM ::
  "glm_estimator \<Rightarrow> real list \<Rightarrow> (real \<Rightarrow> real) \<Rightarrow> lossfn \<Rightarrow> lossfn \<Rightarrow> (real list \<Rightarrow> ndarr) option
     \<Rightarrow> scorer \<Rightarrow> real option \<Rightarrow> bool \<Rightarrow> loo_ppm" where
  "GenericLOOPPM est grid link ld ldd rdd sc trim fixed =
     \<lparr> ppm_estimator = est,
       aloo_calculator = GlmAlooCalculator est grid link ld ldd rdd sc trim,
       ppm_trim = trim, fixed_intercept = fixed, ppm_alpha = None, warnings_issued = [] \<rparr>"

definition Ridge :: glm_estimator where
  "Ridge = \<lparr> class_name = ''Ridge'', param_alpha = Attr (Some 1), param_C = Absent,
             param_epsilon = Absent, fitted = None \<rparr>"

definition LogisticRegression :: glm_estimator where
  "LogisticRegression = \<lparr> class_name = ''LogisticRegression'', param_alpha = Absent,
             param_C = Attr (Fin 1), param_epsilon = Absent, fitted = None \<rparr>"

definition HuberRegressor :: glm_estimator where
  "HuberRegressor = \<lparr> class_name = ''HuberRegressor'', param_alpha = Attr (Some (1 / 10000)),
             param_C = Absent, param_epsilon = Attr (135 / 100), fitted = None \<rparr>"

text \<open>The default loss of the calculator: squared error with the identity link.\<close>

definition default_l_dot :: lossfn where
  "default_l_dot = Loss2 (\<lambda>a b. nd_binop (\<lambda>bi ai. bi - ai) (Arr1 b) (Arr1 a))"

definition default_l_doubledot :: lossfn where
  "default_l_doubledot = Loss2 (\<lambda>a b. Inr (Arr0 1))"

definition default_r_doubledot :: "(real list \<Rightarrow> ndarr) option" where
  "default_r_doubledot = Some (\<lambda>a. Arr0 1)"

definition mean_squared_error :: scorer where
  "mean_squared_error =
     Scorer2 (\<lambda>y preds. if length y = length preds \<and> y \<noteq> []
                         then Inr (mean (map2 (\<lambda>a b. (a - b)\<^sup>2) y preds))
                         else Inl ValueError)"

definition RidgeLOOPPM :: "real list \<Rightarrow> bool \<Rightarrow> loo_ppm" where
  "RidgeLOOPPM grid fixed =
     GenericLOOPPM Ridge grid (\<lambda>a. a) default_l_dot default_l_doubledot default_r_doubledot
       mean_squared_error None fixed"

definition expit :: "real \<Rightarrow> real" where
  "expit x = 1 / (1 + exp (- x))"

definition LogisticLOOPPM :: "real list \<Rightarrow> bool \<Rightarrow> scorer \<Rightarrow> loo_ppm" where
  "LogisticLOOPPM grid fixed log_loss =
     GenericLOOPPM LogisticRegression grid expit default_l_dot
       (Loss2 (\<lambda>a b. Inr (Arr1 (map (\<lambda>bi. bi * (1 - bi)) b)))) default_r_doubledot
       log_loss (Some (1 / 100)) fixed"

definition RobustLOOPPM :: "real list \<Rightarrow> bool \<Rightarrow> loo_ppm" where
  "RobustLOOPPM grid fixed =
     GenericLOOPPM HuberRegressor grid (\<lambda>a. a)
       (Loss3 (\<lambda>a b c. if c = 0 then Inl NonFinite
                        else nd_binop (\<lambda>ai bi. (bi - ai) / sqrt (1 + ((ai - bi) / c)\<^sup>2)) (Arr1 a) (Arr1 b)))
       (Loss3 (\<lambda>a b c. if c = 0 then Inl NonFinite
                        else nd_binop (\<lambda>ai bi. (1 + ((ai - bi) / c)\<^sup>2) powr (- (3 / 2))) (Arr1 a) (Arr1 b)))
       default_r_doubledot (Scorer3 huber_loss) None fixed"

text \<open>
  \<open>GenericLOOPPM._fit_model\<close>: the calculator selects the penalty; the model's own
  estimator receives it, or a warning is issued when it has no such parameter.
\<close>

definition loo_fit_model :: "numlib \<Rightarrow> loo_ppm \<Rightarrow> blocked \<Rightarrow> real list \<Rightarrow> error + loo_ppm" where
  "loo_fit_model lib p train_blocked_data y_train =
     (case get_aloocv_alpha lib (aloo_calculator p) (get_all_data train_blocked_data) y_train of
        Inl e \<Rightarrow> Inl e
      | Inr (a, calc) \<Rightarrow>
          (let p1 = p \<lparr> aloo_calculator := calc, ppm_alpha := Some a \<rparr> in
           case param_alpha (ppm_estimator p) of
             Attr old \<Rightarrow> Inr (p1 \<lparr> ppm_estimator := (ppm_estimator p) \<lparr> param_alpha := Attr (Some a) \<rparr> \<rparr>)
           | Absent \<Rightarrow>
               (case param_C (ppm_estimator p) of
                  Attr old \<Rightarrow>
                    Inr (p1 \<lparr> ppm_estimator :=
                            (ppm_estimator p) \<lparr> param_C := Attr (if a = 0 then PInf else Fin (1 / a)) \<rparr> \<rparr>)
                | Absent \<Rightarrow>
                    Inr (p1 \<lparr> warnings_issued :=
                            warnings_issued p @ [''Estimator has no regularization parameter.''] \<rparr>))))"

text \<open>\<open>GenericLOOPPM._fit_full_predictions\<close>: the only call that caches.\<close>

definition loo_fit_full_predictions ::
  "numlib \<Rightarrow> loo_ppm \<Rightarrow> blocked \<Rightarrow> real list option \<Rightarrow> error + real list \<times> loo_ppm" where
  "loo_fit_full_predictions lib p test_blocked_data y_test =
     (case y_test of
        None \<Rightarrow> Inl ValueError
      | Some yt \<Rightarrow>
          (let X1 = append_ones (get_all_data test_blocked_data) in
           case ppm_alpha p of
             None \<Rightarrow> Inl AttributeError
           | Some a \<Rightarrow>
               (case get_aloo_fitted_parameters lib (aloo_calculator p)
                       (Some (get_all_data test_blocked_data)) (Some yt) (Some a) True of
                  Inl e \<Rightarrow> Inl e
                | Inr (fitted_parameters, calc) \<Rightarrow>
                    (case per_sample_scores (transpose_m fitted_parameters) X1 of
                       Inl e \<Rightarrow> Inl e
                     | Inr sc \<Rightarrow>
                         (case score_to_pred calc sc of
                            Inl e \<Rightarrow> Inl e
                          | Inr preds \<Rightarrow> Inr (preds, p \<lparr> aloo_calculator := calc \<rparr>))))))"

text \<open>
  \<open>GenericLOOPPM._fit_partial_predictions\<close>.  The index \<open>-1\<close> of the intercept is
  appended to the column indices before their number is compared with one.
\<close>

definition select_block :: "blocked \<Rightarrow> nat \<Rightarrow> string \<Rightarrow> error + nat list \<times> matrix" where
  "select_block test_blocked_data k md =
     (if md = ''keep_k'' then
        (case get_block_indices test_blocked_data k of
           Inl e \<Rightarrow> Inl e
         | Inr ci \<Rightarrow>
             (case get_block test_blocked_data k of
                Inl e \<Rightarrow> Inl e
              | Inr reduced_data \<Rightarrow> Inr (ci, reduced_data)))
      else if md = ''keep_rest'' then
        (case get_all_except_block_indices test_blocked_data k of
           Inl e \<Rightarrow> Inl e
         | Inr ci \<Rightarrow>
             (case get_all_except_block test_blocked_data k of
                Inl e \<Rightarrow> Inl e
              | Inr reduced_data \<Rightarrow> Inr (ci, reduced_data)))
      else Inl ValueError)"

definition np_repeat :: "real list \<Rightarrow> nat \<Rightarrow> real list" where
  "np_repeat vs n = concat (map (replicate n) vs)"

definition loo_fit_partial_predictions ::
  "numlib \<Rightarrow> loo_ppm \<Rightarrow> nat \<Rightarrow> string \<Rightarrow> blocked \<Rightarrow> real list option
     \<Rightarrow> error + (real list \<times> params) \<times> loo_ppm" where
  "loo_fit_partial_predictions lib p k md test_blocked_data y_test =
     (case y_test of
        None \<Rightarrow> Inl ValueError
      | Some yt \<Rightarrow>
     (case select_block test_blocked_data k md of
        Inl e \<Rightarrow> Inl e
      | Inr (ci, reduced_data) \<Rightarrow>
     (let reduced_data1 = append_ones reduced_data;
          col_indices = map int ci @ [- 1]
      in if fixed_intercept p \<and> length col_indices = 1 then
           (case extract_coef_and_intercept (estimator_of (aloo_calculator p)) of
              Inl e \<Rightarrow> Inl e
            | Inr (c, intercept) \<Rightarrow>
                (case score_to_pred (aloo_calculator p) (nd_list intercept) of
                   Inl e \<Rightarrow> Inl e
                 | Inr v \<Rightarrow> Inr ((np_repeat v (length yt), PList [intercept]), p)))
         else
           (case get_aloo_fitted_parameters lib (aloo_calculator p) None None None False of
              Inl e \<Rightarrow> Inl e
            | Inr (fitted_parameters, calc) \<Rightarrow>
                (case select_columns (transpose_m fitted_parameters) col_indices of
                   Inl e \<Rightarrow> Inl e
                 | Inr reduced_parameters \<Rightarrow>
                     (case per_sample_scores reduced_parameters reduced_data1 of
                        Inl e \<Rightarrow> Inl e
                      | Inr sc \<Rightarrow>
                          (case score_to_pred calc sc of
                             Inl e \<Rightarrow> Inl e
                           | Inr preds \<Rightarrow>
                               Inr ((preds, PArr2 reduced_parameters),
                                    p \<lparr> aloo_calculator := calc \<rparr>))))))))"

subsection \<open>The partial-prediction model base class\<close>

text \<open>
  The three abstract methods of \<open>PartialPredictionModelBase\<close>, over the state of the
  subclass, and the attributes of the base class.
\<close>

record 'p ppm_class =
  fit_model :: "'p \<Rightarrow> blocked \<Rightarrow> real list \<Rightarrow> error + 'p"
  fit_full_predictions :: "'p \<Rightarrow> blocked \<Rightarrow> real list option \<Rightarrow> error + real list \<times> 'p"
  fit_partial_predictions ::
    "'p \<Rightarrow> nat \<Rightarrow> string \<Rightarrow> blocked \<Rightarrow> real list option \<Rightarrow> error + (real list \<times> params) \<times> 'p"

record 'p ppm =
  subclass_state :: 'p
  ppm_n_blocks :: "nat option"
  partial_preds_of :: "nat \<Rightarrow> (real list \<times> params) option"
  full_preds_of :: "real list option"
  ppm_is_fitted :: bool

definition new_ppm :: "'p \<Rightarrow> 'p ppm" where
  "new_ppm st = \<lparr> subclass_state = st, ppm_n_blocks = None, partial_preds_of = (\<lambda>k. None),
                  full_preds_of = None, ppm_is_fitted = False \<rparr>"

fun partial_loop ::
  "'p ppm_class \<Rightarrow> 'p ppm \<Rightarrow> string \<Rightarrow> blocked \<Rightarrow> real list option \<Rightarrow> nat list \<Rightarrow> error + 'p ppm" where
  "partial_loop cls m md test_blocked_data y_test [] = Inr m"
| "partial_loop cls m md test_blocked_data y_test (k # ks) =
     (case fit_partial_predictions cls (subclass_state m) k md test_blocked_data y_test of
        Inl e \<Rightarrow> Inl e
      | Inr (r, st) \<Rightarrow>
          partial_loop cls
            (m \<lparr> subclass_state := st, partial_preds_of := (partial_preds_of m) (k := Some r) \<rparr>)
            md test_blocked_data y_test ks)"

definition ppm_fit ::
  "'p ppm_class \<Rightarrow> 'p ppm \<Rightarrow> blocked \<Rightarrow> real list \<Rightarrow> blocked \<Rightarrow> real list option \<Rightarrow> string
     \<Rightarrow> error + 'p ppm" where
  "ppm_fit cls m train_blocked_data y_train test_blocked_data y_test md =
     (let m0 = m \<lparr> ppm_n_blocks := Some (n_blocks train_blocked_data) \<rparr> in
      case fit_model cls (subclass_state m0) train_blocked_data y_train of
        Inl e \<Rightarrow> Inl e
      | Inr st1 \<Rightarrow>
          (case fit_full_predictions cls st1 test_blocked_data y_test of
             Inl e \<Rightarrow> Inl e
           | Inr (full, st2) \<Rightarrow>
               (case partial_loop cls (m0 \<lparr> subclass_state := st2, full_preds_of := Some full \<rparr>)
                       md test_blocked_data y_test [0..<n_blocks train_blocked_data] of
                  Inl e \<Rightarrow> Inl e
                | Inr m1 \<Rightarrow> Inr (m1 \<lparr> ppm_is_fitted := True \<rparr>))))"

definition get_partial_predictions :: "'p ppm \<Rightarrow> nat \<Rightarrow> error + real list \<times> params" where
  "get_partial_predictions m k =
     (case partial_preds_of m k of None \<Rightarrow> Inl KeyError | Some r \<Rightarrow> Inr r)"

definition get_full_predictions :: "'p ppm \<Rightarrow> real list option" where
  "get_full_predictions m = full_preds_of m"

text \<open>The leave-one-out model as an instance of the base class.\<close>

definition loo_class :: "numlib \<Rightarrow> loo_ppm ppm_class" where
  "loo_class lib =
     \<lparr> fit_model = loo_fit_model lib,
       fit_full_predictions = loo_fit_full_predictions lib,
       fit_partial_predictions = loo_fit_partial_predictions lib \<rparr>"


subsection \<open>The per-member scorer\<close>

text \<open>
  The target is one- or two-dimensional.  The scoring function is a callable, or a
  string such as the tag \<open>"mdi_oob"\<close>.
\<close>

datatype target = Y1 "real list" | Y2 matrix

fun ndim :: "target \<Rightarrow> nat" where
  "ndim (Y1 ys) = 1"
| "ndim (Y2 M) = 2"

fun len :: "target \<Rightarrow> nat" where
  "len (Y1 ys) = length ys"
| "len (Y2 M) = nrows M"

datatype scoring = Tag string | Callable "real list \<Rightarrow> real list \<Rightarrow> error + fl"

text \<open>
  Modelled from the spec: the transformer classes of
  \<open>imodels.importance.representation_cleaned\<close> are not among the sources.  A
  transformer turns \<open>X\<close> into block-partitioned data (\<open>transform(X, center)\<close>) and
  carries its adjustment factors; the bootstrap indices that the library derives from
  the random state of the transformer's tree are given as functions of the number of
  samples.  The adjustment factors are finite reals (entries that \<open>nanmin\<close> would skip
  are left out).
\<close>

record transformer =
  transform :: "matrix \<Rightarrow> bool \<Rightarrow> error + blocked"
  all_adj_factors :: "real list list"
  generate_sample_indices :: "nat \<Rightarrow> nat list"
  generate_unsampled_indices :: "nat \<Rightarrow> nat list"

record 'p gmdi =
  transformer_of :: transformer
  partial_prediction_model :: "'p ppm"
  scoring_fn :: scoring
  mode :: string
  n_features :: "nat option"
  scores :: "fl list option"
  is_fitted :: bool
  oob :: bool
  training :: bool
  center :: bool
  include_raw :: bool
  drop_features :: bool

text \<open>\<open>GMDI.__init__\<close>, with its parameters in the order of the signature.\<close>

definition GMDI ::
  "transformer \<Rightarrow> 'p ppm \<Rightarrow> scoring \<Rightarrow> string \<Rightarrow> bool \<Rightarrow> bool \<Rightarrow> bool \<Rightarrow> bool \<Rightarrow> bool \<Rightarrow> 'p gmdi" where
  "GMDI tr model sf md oob_arg training_arg center_arg include_raw_arg drop_features_arg =
     \<lparr> transformer_of = tr, partial_prediction_model = model, scoring_fn = sf, mode = md,
       n_features = None, scores = None, is_fitted = False, oob = oob_arg,
       training = training_arg, center = center_arg, include_raw = include_raw_arg,
       drop_features = drop_features_arg \<rparr>"

text \<open>
  The rescaling of the raw-feature blocks (\<open>include_raw\<close> without \<open>drop_features\<close>):
  a block of one column whose feature has a positive standard deviation is multiplied
  by the smallest adjustment factor over that deviation.
\<close>

definition col_std :: "real list \<Rightarrow> real" where
  "col_std xs = sqrt (mean (map (\<lambda>x. (x - mean xs)\<^sup>2) xs))"

definition block_columns :: "blocked \<Rightarrow> nat \<Rightarrow> error + matrix" where
  "block_columns bd k =
     (case get_block_indices bd k of
        Inl e \<Rightarrow> Inl e
      | Inr ci \<Rightarrow> select_columns (get_all_data bd) (map int ci))"

definition rescale_block :: "matrix \<Rightarrow> blocked \<Rightarrow> real \<Rightarrow> nat \<Rightarrow> error + matrix" where
  "rescale_block X bd min_adj_factor k =
     (case get_block bd k of
        Inl e \<Rightarrow> Inl e
      | Inr B \<Rightarrow>
          if ncols B = 1 then
            (if k < ncols X then
               (if 0 < col_std (column X k) then
                  (case block_columns bd k of
                     Inl e \<Rightarrow> Inl e
                   | Inr D \<Rightarrow>
                       Inr (Matrix (ncols D)
                              (map (map (\<lambda>x. x * min_adj_factor / col_std (column X k))) (mrows D))))
                else block_columns bd k)
             else Inl IndexError)
          else block_columns bd k)"

definition rescale_raw_blocks :: "transformer \<Rightarrow> matrix \<Rightarrow> blocked \<Rightarrow> error + blocked" where
  "rescale_raw_blocks tr X bd =
     (if concat (all_adj_factors tr) = [] then Inl ValueError
      else
        (case collect (map (rescale_block X bd (Min (set (concat (all_adj_factors tr)))))
                        [0..<n_blocks bd]) of
           Inl e \<Rightarrow> Inl e
         | Inr blocks \<Rightarrow> Inr (Blocked (n_samples bd) blocks)))"

text \<open>\<open>_train_test_split\<close>: the in-bag rows train, the out-of-bag rows test.\<close>

definition select_target :: "target \<Rightarrow> nat list \<Rightarrow> error + target" where
  "select_target y idx =
     (case y of
        Y1 ys \<Rightarrow> (case select_entries ys idx of Inl e \<Rightarrow> Inl e | Inr zs \<Rightarrow> Inr (Y1 zs))
      | Y2 M \<Rightarrow> (case select_rows M idx of Inl e \<Rightarrow> Inl e | Inr N \<Rightarrow> Inr (Y2 N)))"

definition gmdi_train_test_split ::
  "transformer \<Rightarrow> blocked \<Rightarrow> target \<Rightarrow> error + blocked \<times> blocked \<times> target \<times> target" where
  "gmdi_train_test_split tr bd y =
     (let train_indices = generate_sample_indices tr (len y);
          test_indices = generate_unsampled_indices tr (len y)
      in case blocked_train_test_split bd train_indices test_indices of
           Inl e \<Rightarrow> Inl e
         | Inr (train_bd, test_bd) \<Rightarrow>
             (case select_target y train_indices of
                Inl e \<Rightarrow> Inl e
              | Inr y_train \<Rightarrow>
                  (case select_target y test_indices of
                     Inl e \<Rightarrow> Inl e
                   | Inr y_test \<Rightarrow> Inr (train_bd, test_bd, y_train, y_test))))"

text \<open>
  The first part of \<open>_fit_importance_scores\<close>, up to the test for an empty
  representation: the number of features and the train and test data.
\<close>

definition prepare_data ::
  "'p gmdi \<Rightarrow> matrix \<Rightarrow> target \<Rightarrow> error + nat \<times> blocked \<times> blocked \<times> target \<times> target" where
  "prepare_data g X y =
     (case transform (transformer_of g) X (center g) of
        Inl e \<Rightarrow> Inl e
      | Inr bd0 \<Rightarrow>
     (case (if include_raw g \<and> \<not> drop_features g
            then rescale_raw_blocks (transformer_of g) X bd0 else Inr bd0) of
        Inl e \<Rightarrow> Inl e
      | Inr bd \<Rightarrow>
          if oob g then
            (case gmdi_train_test_split (transformer_of g) bd y of
               Inl e \<Rightarrow> Inl e
             | Inr (train_bd, test_bd, y_train, y_test) \<Rightarrow>
                 if training g then Inr (n_blocks bd0, train_bd, train_bd, y_train, y_train)
                 else Inr (n_blocks bd0, train_bd, test_bd, y_train, y_test))
          else Inr (n_blocks bd0, bd, bd, y, y)))"

text \<open>
  \<open>_fit_one_target\<close> returns a Python tuple of three objects: the full predictions,
  the dictionary of partial predictions and the dictionary of partial parameters.
  Unpacking a tuple into another number of names raises \<open>ValueError\<close>.
\<close>

datatype pyobj =
    PyNone
  | FullPreds "real list"
  | PartialPreds "nat \<Rightarrow> real list option"
  | PartialParams "nat \<Rightarrow> params option"

definition unpack2 :: "'a list \<Rightarrow> error + 'a \<times> 'a" where
  "unpack2 t = (case t of [a, b] \<Rightarrow> Inr (a, b) | _ \<Rightarrow> Inl ValueError)"

definition unpack3 :: "'a list \<Rightarrow> error + 'a \<times> 'a \<times> 'a" where
  "unpack3 t = (case t of [a, b, c] \<Rightarrow> Inr (a, b, c) | _ \<Rightarrow> Inl ValueError)"

fun collect_partial ::
  "'p ppm \<Rightarrow> nat list \<Rightarrow> (nat \<Rightarrow> real list option) \<Rightarrow> (nat \<Rightarrow> params option)
     \<Rightarrow> error + (nat \<Rightarrow> real list option) \<times> (nat \<Rightarrow> params option)" where
  "collect_partial m [] pp prm = Inr (pp, prm)"
| "collect_partial m (k # ks) pp prm =
     (case get_partial_predictions m k of
        Inl e \<Rightarrow> Inl e
      | Inr (preds, ps) \<Rightarrow> collect_partial m ks (pp (k := Some preds)) (prm (k := Some ps)))"

definition fit_one_target ::
  "'p ppm_class \<Rightarrow> 'p gmdi \<Rightarrow> nat \<Rightarrow> blocked \<Rightarrow> real list \<Rightarrow> blocked \<Rightarrow> real list \<Rightarrow> bool
     \<Rightarrow> error + pyobj list \<times> 'p gmdi" where
  "fit_one_target cls g nf train_blocked_data y_train test_blocked_data y_test multitarget =
     (case ppm_fit cls (partial_prediction_model g) train_blocked_data y_train
             test_blocked_data (Some y_test) (mode g) of
        Inl e \<Rightarrow> Inl e
      | Inr m \<Rightarrow>
          (case collect_partial m [0..<nf] (\<lambda>k. None) (\<lambda>k. None) of
             Inl e \<Rightarrow> Inl e
           | Inr (pp, prm) \<Rightarrow>
               Inr ([case get_full_predictions m of None \<Rightarrow> PyNone | Some f \<Rightarrow> FullPreds f,
                     PartialPreds pp, PartialParams prm],
                    if multitarget then g else g \<lparr> partial_prediction_model := m \<rparr>)))"

text \<open>
  \<open>_score_partial_predictions\<close>.  With the tag \<open>"mdi_oob"\<close> the score of a feature
  is the mean product of the target with the partial prediction minus a baseline taken
  from the partial parameters.
\<close>

definition dot_over_len :: "real list \<Rightarrow> real list \<Rightarrow> error + fl" where
  "dot_over_len y v =
     (if length y = length v
      then Inr (if y = [] then NaN else Fin (dot y v / real (length y)))
      else Inl ValueError)"

definition minus_baseline :: "real list \<Rightarrow> ndarr \<Rightarrow> error + real list" where
  "minus_baseline preds b =
     (case nd_binop (\<lambda>p c. p - c) (Arr1 preds) b of
        Inl e \<Rightarrow> Inl e
      | Inr d \<Rightarrow> Inr (nd_list d))"

text \<open>
  A baseline of shape \<open>(1, m)\<close>: the difference is two-dimensional, and the product
  with the target fits the slot of one score only when everything has length one.
\<close>

definition mdi_oob_row :: "real list \<Rightarrow> real list \<Rightarrow> real list \<Rightarrow> error + fl" where
  "mdi_oob_row y preds r =
     (if length y = 1 \<and> length preds = 1 \<and> length r = 1
      then Inr (Fin (hd y * (hd preds - hd r)))
      else Inl ValueError)"

definition mdi_oob_score :: "real list \<Rightarrow> real list \<Rightarrow> params \<Rightarrow> error + fl" where
  "mdi_oob_score y preds ps =
     (case ps of
        PList xs \<Rightarrow>
          (case xs of
             [Arr0 c] \<Rightarrow>
               (case minus_baseline preds (Arr0 c) of Inl e \<Rightarrow> Inl e | Inr d \<Rightarrow> dot_over_len y d)
           | [Arr1 cs] \<Rightarrow> mdi_oob_row y preds cs
           | _ \<Rightarrow> Inl AttributeError)
      | PArr1 xs \<Rightarrow>
          (if xs = [] then Inl IndexError
           else (case minus_baseline preds (Arr0 (last xs)) of
                   Inl e \<Rightarrow> Inl e
                 | Inr d \<Rightarrow> dot_over_len y d))
      | PArr2 M \<Rightarrow>
          (case mrows M of
             [r] \<Rightarrow> mdi_oob_row y preds r
           | _ \<Rightarrow>
               (if ncols M = 0 then Inl IndexError
                else (case minus_baseline preds (Arr1 (map last (mrows M))) of
                        Inl e \<Rightarrow> Inl e
                      | Inr d \<Rightarrow> dot_over_len y d))))"

definition call_scoring :: "scoring \<Rightarrow> real list \<Rightarrow> real list \<Rightarrow> error + fl" where
  "call_scoring sf y preds = (case sf of Tag t \<Rightarrow> Inl TypeError | Callable f \<Rightarrow> f y preds)"

definition lookup :: "(nat \<Rightarrow> 'a option) \<Rightarrow> nat \<Rightarrow> error + 'a" where
  "lookup d k = (case d k of None \<Rightarrow> Inl KeyError | Some v \<Rightarrow> Inr v)"

definition keep_k_score ::
  "scoring \<Rightarrow> (nat \<Rightarrow> params option) \<Rightarrow> (nat \<Rightarrow> real list option) \<Rightarrow> real list \<Rightarrow> nat \<Rightarrow> error + fl" where
  "keep_k_score sf partial_params partial_preds y_test k =
     (if sf = Tag ''mdi_oob'' then
        (case lookup partial_params k of
           Inl e \<Rightarrow> Inl e
         | Inr ps \<Rightarrow>
             (case lookup partial_preds k of
                Inl e \<Rightarrow> Inl e
              | Inr preds \<Rightarrow> mdi_oob_score y_test preds ps))
      else
        (case lookup partial_preds k of
           Inl e \<Rightarrow> Inl e
         | Inr preds \<Rightarrow> call_scoring sf y_test preds))"

definition keep_rest_score ::
  "scoring \<Rightarrow> fl \<Rightarrow> (nat \<Rightarrow> real list option) \<Rightarrow> real list \<Rightarrow> nat \<Rightarrow> error + fl" where
  "keep_rest_score sf full_score partial_preds y_test k =
     (case lookup partial_preds k of
        Inl e \<Rightarrow> Inl e
      | Inr preds \<Rightarrow>
          (case call_scoring sf y_test preds of
             Inl e \<Rightarrow> Inl e
           | Inr v \<Rightarrow> Inr (fl_sub full_score v)))"

definition score_partial_predictions ::
  "'p gmdi \<Rightarrow> nat \<Rightarrow> real list \<Rightarrow> (nat \<Rightarrow> params option) \<Rightarrow> (nat \<Rightarrow> real list option) \<Rightarrow> real list
     \<Rightarrow> error + fl list" where
  "score_partial_predictions g nf full_preds partial_params partial_preds y_test =
     (if mode g = ''keep_k'' then
        collect (map (keep_k_score (scoring_fn g) partial_params partial_preds y_test) [0..<nf])
      else if mode g = ''keep_rest'' then
        (case call_scoring (scoring_fn g) y_test full_preds of
           Inl e \<Rightarrow> Inl e
         | Inr full_score \<Rightarrow>
             collect (map (keep_rest_score (scoring_fn g) full_score partial_preds y_test) [0..<nf]))
      else Inr (replicate nf (Fin 0)))"

text \<open>
  The loop over the target columns of the multi-column branch.  It runs over
  \<open>range(y.ndim)\<close> and unpacks the result of \<open>_fit_one_target\<close> into two names.
\<close>

definition target_column :: "target \<Rightarrow> nat \<Rightarrow> error + real list" where
  "target_column y j =
     (case y of
        Y1 ys \<Rightarrow> Inl IndexError
      | Y2 M \<Rightarrow> if j < ncols M then Inr (column M j) else Inl IndexError)"

fun multi_target_loop ::
  "'p ppm_class \<Rightarrow> 'p gmdi \<Rightarrow> nat \<Rightarrow> blocked \<Rightarrow> target \<Rightarrow> blocked \<Rightarrow> target \<Rightarrow> nat list
     \<Rightarrow> error + pyobj list \<times> pyobj list" where
  "multi_target_loop cls g nf train_bd y_train test_bd y_test [] = Inr ([], [])"
| "multi_target_loop cls g nf train_bd y_train test_bd y_test (j # js) =
     (case target_column y_train j of
        Inl e \<Rightarrow> Inl e
      | Inr yj_train \<Rightarrow>
     (case target_column y_test j of
        Inl e \<Rightarrow> Inl e
      | Inr yj_test \<Rightarrow>
     (case fit_one_target cls g nf train_bd yj_train test_bd yj_test True of
        Inl e \<Rightarrow> Inl e
      | Inr (result, g1) \<Rightarrow>
     (case unpack2 result of
        Inl e \<Rightarrow> Inl e
      | Inr (full_preds_j, partial_preds_j) \<Rightarrow>
     (case multi_target_loop cls g nf train_bd y_train test_bd y_test js of
        Inl e \<Rightarrow> Inl e
      | Inr (full_preds_list, partial_preds_list) \<Rightarrow>
          Inr (full_preds_j # full_preds_list, partial_preds_j # partial_preds_list))))))"

text \<open>
  The attribute \<open>np.NaN\<close>.  The module imports \<open>numpy\<close> without fixing a
  release.  In the releases before 2.0 \<open>np.NaN\<close> is an alias of \<open>np.nan\<close>; release
  2.0 removed the alias, and looking it up raises \<open>AttributeError\<close>.
\<close>

datatype numpy_release = NumPy1 | NumPy2

definition np_NaN :: "numpy_release \<Rightarrow> error + fl" where
  "np_NaN release = (case release of NumPy1 \<Rightarrow> Inr NaN | NumPy2 \<Rightarrow> Inl AttributeError)"

text \<open>
  The loop of the empty-representation branch: \<open>np.NaN\<close> is looked up once per
  feature of \<open>X\<close> and stored in that feature's slot of the vector of zeros; without
  any feature it is never looked up.
\<close>

fun fill_scores :: "numpy_release \<Rightarrow> fl list \<Rightarrow> nat list \<Rightarrow> error + fl list" where
  "fill_scores release sc [] = Inr sc"
| "fill_scores release sc (k # ks) =
     (case np_NaN release of
        Inl e \<Rightarrow> Inl e
      | Inr v \<Rightarrow> fill_scores release (sc [k := v]) ks)"

text \<open>
  \<open>_fit_importance_scores\<close>.  In the multi-column branch the name
  \<open>partial_params\<close> is never bound, so the call of the scoring method raises
  \<open>NameError\<close> (as \<open>UnboundLocalError\<close>) should the loop ever finish.
\<close>

definition fit_importance_scores ::
  "numpy_release \<Rightarrow> 'p ppm_class \<Rightarrow> 'p gmdi \<Rightarrow> matrix \<Rightarrow> target \<Rightarrow> error + 'p gmdi" where
  "fit_importance_scores release cls g X y =
     (case prepare_data g X y of
        Inl e \<Rightarrow> Inl e
      | Inr (nf, train_bd, test_bd, y_train, y_test) \<Rightarrow>
          if ncols (get_all_data train_bd) = 0 then
            (case fill_scores release (replicate (ncols X) (Fin 0)) [0..<ncols X] of
               Inl e \<Rightarrow> Inl e
             | Inr sc \<Rightarrow>
                 Inr (g \<lparr> n_features := Some nf, scores := Some sc, is_fitted := True \<rparr>))
          else if ndim y = 1 then
            (case (y_train, y_test) of
               (Y1 ytr, Y1 yte) \<Rightarrow>
                 (case fit_one_target cls g nf train_bd ytr test_bd yte False of
                    Inl e \<Rightarrow> Inl e
                  | Inr (result, g1) \<Rightarrow>
                      (case unpack3 result of
                         Inl e \<Rightarrow> Inl e
                       | Inr (FullPreds full_preds, PartialPreds partial_preds,
                              PartialParams partial_params) \<Rightarrow>
                           (case score_partial_predictions g1 nf full_preds partial_params
                                   partial_preds yte of
                              Inl e \<Rightarrow> Inl e
                            | Inr sc \<Rightarrow>
                                Inr (g1 \<lparr> n_features := Some nf, scores := Some sc,
                                          is_fitted := True \<rparr>))
                       | Inr other \<Rightarrow> Inl TypeError))
             | _ \<Rightarrow> Inl TypeError)
          else
            (case multi_target_loop cls g nf train_bd y_train test_bd y_test [0..<ndim y] of
               Inl e \<Rightarrow> Inl e
             | Inr (full_preds_list, partial_preds_list) \<Rightarrow> Inl NameError))"

text \<open>\<open>GMDI.get_scores\<close>.\<close>

definition get_scores ::
  "numpy_release \<Rightarrow> 'p ppm_class \<Rightarrow> 'p gmdi \<Rightarrow> matrix option \<Rightarrow> target option
     \<Rightarrow> error + fl list option \<times> 'p gmdi" where
  "get_scores release cls g X y =
     (if is_fitted g then Inr (scores g, g)
      else
        (case (X, y) of
           (Some X', Some y') \<Rightarrow>
             (case fit_importance_scores release cls g X' y' of
                Inl e \<Rightarrow> Inl e
              | Inr g1 \<Rightarrow> Inr (scores g1, g1))
         | _ \<Rightarrow> Inl ValueError))"

subsection \<open>The ensemble\<close>

record 'p ensemble =
  gmdi_objects :: "'p gmdi list"
  ens_n_features :: "nat option"
  ens_scores :: "fl list option"
  ens_is_fitted :: bool

text \<open>
  \<open>GMDIEnsemble.__init__\<close> builds one scorer per transformer, passing its arguments by
  position: \<open>center\<close>, \<open>include_raw\<close> and \<open>drop_features\<close> arrive in the scorer's
  \<open>training\<close>, \<open>center\<close> and \<open>include_raw\<close>, and the scorer's \<open>drop_features\<close>
  keeps its default.
\<close>

definition GMDIEnsemble ::
  "transformer list \<Rightarrow> 'p ppm \<Rightarrow> scoring \<Rightarrow> string \<Rightarrow> bool \<Rightarrow> bool \<Rightarrow> bool \<Rightarrow> bool \<Rightarrow> 'p ensemble" where
  "GMDIEnsemble transformers model sf md oob_arg center_arg include_raw_arg drop_features_arg =
     \<lparr> gmdi_objects =
         map (\<lambda>tr. GMDI tr model sf md oob_arg center_arg include_raw_arg drop_features_arg True)
           transformers,
       ens_n_features = None, ens_scores = None, ens_is_fitted = False \<rparr>"

text \<open>The loop over the members: each is asked for its scores, in order.\<close>

fun member_scores ::
  "numpy_release \<Rightarrow> 'p ppm_class \<Rightarrow> 'p gmdi list \<Rightarrow> matrix \<Rightarrow> target
     \<Rightarrow> error + fl list option list \<times> 'p gmdi list" where
  "member_scores release cls [] X y = Inr ([], [])"
| "member_scores release cls (g # gs) X y =
     (case get_scores release cls g (Some X) (Some y) of
        Inl e \<Rightarrow> Inl e
      | Inr (sc, g1) \<Rightarrow>
          (case member_scores release cls gs X y of
             Inl e \<Rightarrow> Inl e
           | Inr (scs, gs1) \<Rightarrow> Inr (sc # scs, g1 # gs1)))"

text \<open>
  \<open>np.nanmean(scores, axis=0)\<close> on the list of the members' score vectors: one mean
  per feature.  Vectors of different lengths do not form an array.  (Without any member
  the library returns a lone not-a-number; the fit then fails at the lookup of the first
  member.)
\<close>

definition nanmean_axis0 :: "fl list list \<Rightarrow> error + fl list" where
  "nanmean_axis0 vs =
     (case vs of
        [] \<Rightarrow> Inr []
      | v # rest \<Rightarrow>
          if list_all (\<lambda>w. length w = length v) rest
          then Inr (map (\<lambda>j. nanmean_column (map (\<lambda>w. w ! j) vs)) [0..<length v])
          else Inl ValueError)"

definition ens_fit_importance_scores ::
  "numpy_release \<Rightarrow> 'p ppm_class \<Rightarrow> 'p ensemble \<Rightarrow> matrix \<Rightarrow> target \<Rightarrow> error + 'p ensemble" where
  "ens_fit_importance_scores release cls ens X y =
     (if nrows X \<noteq> len y then Inl AssertionError
      else
        (case member_scores release cls (gmdi_objects ens) X y of
           Inl e \<Rightarrow> Inl e
         | Inr (scs, members) \<Rightarrow>
             (if None \<in> set scs then Inl TypeError
              else
                (case nanmean_axis0 (map the scs) of
                   Inl e \<Rightarrow> Inl e
                 | Inr avg \<Rightarrow>
                     (case members of
                        [] \<Rightarrow> Inl IndexError
                      | first # others \<Rightarrow>
                          Inr (ens \<lparr> gmdi_objects := members, ens_n_features := n_features first,
                                     ens_scores := Some avg, ens_is_fitted := True \<rparr>))))))"

definition ens_get_scores ::
  "numpy_release \<Rightarrow> 'p ppm_class \<Rightarrow> 'p ensemble \<Rightarrow> matrix option \<Rightarrow> target option
     \<Rightarrow> error + fl list option \<times> 'p ensemble" where
  "ens_get_scores release cls ens X y =
     (if ens_is_fitted ens then Inr (ens_scores ens, ens)
      else
        (case (X, y) of
           (Some X', Some y') \<Rightarrow>
             (case ens_fit_importance_scores release cls ens X' y' of
                Inl e \<Rightarrow> Inl e
              | Inr ens1 \<Rightarrow> Inr (ens_scores ens1, ens1))
         | _ \<Rightarrow> Inl ValueError))"


subsection \<open>A small instance of the pipeline\<close>

text \<open>
  To run the pipeline on concrete data: every estimator is fitted as the mean predictor
  (all coefficients zero, the intercept the mean of the target), and matrices of one or
  two rows are inverted in closed form.  \<open>plain_estimator\<close> exposes neither
  \<open>alpha\<close> nor \<open>C\<close>.
\<close>

definition inverse_small :: "matrix \<Rightarrow> error + matrix" where
  "inverse_small M =
     (case mrows M of
        [[a]] \<Rightarrow> if a = 0 then Inl LinAlgError else Inr (Matrix 1 [[1 / a]])
      | [[a, b], [c, d]] \<Rightarrow>
          if a * d - b * c = 0 then Inl LinAlgError
          else Inr (Matrix 2 [[d / (a * d - b * c), - b / (a * d - b * c)],
                              [- c / (a * d - b * c), a / (a * d - b * c)]])
      | _ \<Rightarrow> Inl LinAlgError)"

definition demo_numlib :: numlib where
  "demo_numlib =
     \<lparr> glm_fit = (\<lambda>est X y. case (X, y) of
                      (Some X', Some y') \<Rightarrow>
                        if y' = [] \<or> length y' \<noteq> nrows X' then Inl ValueError
                        else Inr (est \<lparr> fitted := Some (Coef1 (replicate (ncols X') 0), Arr0 (mean y')) \<rparr>)
                    | _ \<Rightarrow> Inl ValueError),
       linalg_inv = inverse_small \<rparr>"

definition plain_estimator :: glm_estimator where
  "plain_estimator = \<lparr> class_name = ''LinearRegression'', param_alpha = Absent, param_C = Absent,
             param_epsilon = Absent, fitted = None \<rparr>"

definition plain_calculator :: aloo where
  "plain_calculator =
     GlmAlooCalculator plain_estimator [1, 10] (\<lambda>a. a) default_l_dot default_l_doubledot
       default_r_doubledot mean_squared_error None"

definition plain_ppm :: loo_ppm where
  "plain_ppm =
     GenericLOOPPM plain_estimator [1, 10] (\<lambda>a. a) default_l_dot default_l_doubledot
       default_r_doubledot mean_squared_error None True"

text \<open>Three samples of one feature, as a matrix and as a single block.\<close>

definition X_three :: matrix where
  "X_three = Matrix 1 [[0], [1], [2]]"

definition y_three :: "real list" where
  "y_three = [1, 2, 6]"

definition one_block :: blocked where
  "one_block = Blocked 3 [X_three]"

text \<open>
  A partial-prediction model that predicts the mean of the training target from every
  block, and returns it as the only parameter.
\<close>

definition mean_class :: "real ppm_class" where
  "mean_class =
     \<lparr> fit_model = (\<lambda>st train_bd y_train. if y_train = [] then Inl LibraryError
                                             else Inr (mean y_train)),
       fit_full_predictions = (\<lambda>st test_bd y_test. Inr (replicate (n_samples test_bd) st, st)),
       fit_partial_predictions = (\<lambda>st k md test_bd y_test.
          if md = ''keep_k'' \<or> md = ''keep_rest''
          then Inr ((replicate (n_samples test_bd) st, PList [Arr0 st]), st)
          else Inl ValueError) \<rparr>"

text \<open>
  Two transformers: one keeps every raw column as its own block, the other returns one
  block without any column per feature.  Both take the bootstrap rows as given.
\<close>

definition raw_transformer :: "nat list \<Rightarrow> nat list \<Rightarrow> transformer" where
  "raw_transformer in_bag out_of_bag =
     \<lparr> transform = (\<lambda>X c. Inr (Blocked (nrows X)
                         (map (\<lambda>j. column_matrix (column X j)) [0..<ncols X]))),
       all_adj_factors = [[1]],
       generate_sample_indices = (\<lambda>n. in_bag),
       generate_unsampled_indices = (\<lambda>n. out_of_bag) \<rparr>"

definition empty_transformer :: "nat list \<Rightarrow> nat list \<Rightarrow> transformer" where
  "empty_transformer in_bag out_of_bag =
     \<lparr> transform = (\<lambda>X c. Inr (Blocked (nrows X)
                         (map (\<lambda>j. Matrix 0 (replicate (nrows X) [])) [0..<ncols X]))),
       all_adj_factors = [[1]],
       generate_sample_indices = (\<lambda>n. in_bag),
       generate_unsampled_indices = (\<lambda>n. out_of_bag) \<rparr>"

text \<open>The score used in the examples: the mean of the predictions.\<close>

definition mean_prediction :: scoring where
  "mean_prediction = Callable (\<lambda>y preds. if preds = [] then Inr NaN else Inr (Fin (mean preds)))"


text \<open>The finite entries of a column of scores.\<close>

definition finite_part :: "fl list \<Rightarrow> real list" where
  "finite_part xs = concat (map (\<lambda>v. case v of Fin r \<Rightarrow> [r] | _ \<Rightarrow> []) xs)"

text \<open>
  Scorers and ensembles for the examples: a scorer over the raw columns, one over the
  empty representation, a target of three columns, an ensemble of three members whose
  bootstrap rows differ (the second has no out-of-bag row, so that its predictions are
  empty and their mean is not-a-number), and an ensemble of two members that have
  already reported infinite scores of opposite sign.
\<close>

definition scorer_raw :: "real gmdi" where
  "scorer_raw = GMDI (raw_transformer [0, 1, 2, 3] [0, 1, 2, 3]) (new_ppm 0) mean_prediction
                  ''keep_k'' False False True True True"

definition scorer_empty :: "real gmdi" where
  "scorer_empty = GMDI (empty_transformer [0, 1, 2, 3] [0, 1, 2, 3]) (new_ppm 0) mean_prediction
                  ''keep_k'' False False True True True"

definition y_four :: target where
  "y_four = Y1 [2, 4, 0, 0]"

definition Y_three_columns :: target where
  "Y_three_columns = Y2 (Matrix 3 [[1, 2, 3], [4, 5, 6], [7, 8, 9], [10, 11, 12]])"

definition three_members :: "real ensemble" where
  "three_members =
     GMDIEnsemble [raw_transformer [0] [0], raw_transformer [0] [], raw_transformer [1] [1]]
       (new_ppm 0) mean_prediction ''keep_k'' True False True True"

definition reported :: "fl list \<Rightarrow> real gmdi" where
  "reported v = scorer_raw \<lparr> scores := Some v, is_fitted := True \<rparr>"

definition opposite_infinities :: "real ensemble" where
  "opposite_infinities =
     \<lparr> gmdi_objects = [reported [PInf], reported [NInf]], ens_n_features = None,
       ens_scores = None, ens_is_fitted = False \<rparr>"

definition empty_first :: blocked where
  "empty_first = Blocked 3 [Matrix 0 [[], [], []], X_three]"


section \<open>Properties of the marginal-shrinkage linear model\<close>

subsection \<open>Evaluation on the sample data\<close>

lemmas demo_defs = fit_def fit_prepare_def fit_main_def fit_marginal_def demo_sklearn_def
  default_regressor_def init_def X_one_feature_def X_demo_def y_demo_def get_est_from_name_def
  scaler_fit_def scaler_transform_def scale_target_def column_def column_matrix_def mean_def
  col_scale_def nrows_def vstack_squeeze_def squeeze_n_by_1_def Let_def slope_def dot_def
  finish_def sign_def upt_conv_Cons signed_nnls_def signed_lasso_def no_main_def

lemma fit_prepare_demo:
  "fit_prepare demo_sklearn (default_regressor \<lparr> est_main_name := nm, marginal_sign_constraint := b \<rparr>)
     X_demo y_demo None = Inr prepared_demo"
  by (simp add: demo_defs prepared_demo_def)

lemma demo_nonneg:
  "fit_coef demo_sklearn (ElasticNetCV a) X' y' w' = Inr c
     \<Longrightarrow> length c = ncols X' \<and> list_all (\<lambda>v. 0 \<le> v) c"
  by (auto simp: demo_sklearn_def list_all_iff split: ndarr.splits)

subsection \<open>Shapes\<close>

lemma fit_each_feature_length:
  "fit_each_feature env est X y w is = Inr cs \<Longrightarrow> length cs = length is"
  by (induction "is" arbitrary: cs) (auto split: sum.splits)

lemma fit_marginal_shape:
  assumes "fit_marginal env cfg X y w = Inr cm"
  shows "case cm of Arr0 c \<Rightarrow> ncols X = 1 | Arr1 v \<Rightarrow> length v = ncols X"
  using assms
  by (auto simp: fit_marginal_def vstack_squeeze_def split: sum.splits option.splits list.splits if_splits
      dest!: fit_each_feature_length)

lemma scaler_transform_ncols:
  "scaler_transform sc X = Inr X' \<Longrightarrow> ncols X' = ncols X"
  by (auto simp: scaler_transform_def split: if_splits)

lemma fit_prepare_marginal:
  assumes "fit_prepare env cfg X y w = Inr p"
  shows "fit_marginal env cfg (p_X p) (p_y p) (p_sample_weight p) = Inr (p_coef_marginal p)"
  using assms
  by (auto simp: fit_prepare_def Let_def split: sum.splits prod.splits if_splits)

lemma fit_prepare_scalar_y:
  assumes "fit_prepare env cfg X y w = Inr p" and "is_regressor cfg"
  shows "\<exists>mu sd. p_scalar_y p = Some \<lparr> sc_mean = [mu], sc_scale = [sd] \<rparr>"
  using assms
  by (auto simp: fit_prepare_def Let_def scale_target_def scaler_fit_def column_matrix_def
      split: sum.splits prod.splits if_splits)

lemma fit_prepare_ncols:
  assumes "fit_prepare env cfg X y w = Inr p" and "check_X_y env X y = Inr (X1, y1)"
  shows "ncols (p_X p) = ncols X1"
  using assms
  by (auto simp: fit_prepare_def Let_def split: sum.splits prod.splits if_splits
      dest: scaler_transform_ncols)

lemma fit_marginal_one_feature:
  assumes "fit_marginal env cfg X y w = Inr cm"
    and "get_est_from_name cfg (est_marginal_name cfg) = Inr (Some em)"
    and "ncols X = 1"
  shows "\<exists>c. cm = Arr0 c"
  using assms
  by (auto simp: fit_marginal_def vstack_squeeze_def split: sum.splits if_splits)

lemma inverse_scale_vector:
  "inverse_scale \<lparr> sc_mean = [mu], sc_scale = [sd] \<rparr> (Arr1 pred)
     = Inr (squeeze_n_by_1 (map (\<lambda>v. v * sd + mu) pred))"
proof -
  have "concat (map (\<lambda>r. map (\<lambda>(x, m, s). x * s + m) (zip r [(mu, sd)])) (map (\<lambda>x. [x]) pred))
          = map (\<lambda>v. v * sd + mu) pred"
    by (induction pred) auto
  then show ?thesis
    by (simp add: inverse_scale_def scaler_inverse_transform_def column_matrix_def)
qed

lemma sign_product:
  "0 \<le> c \<Longrightarrow> c = 0 \<or> sign m = 0 \<or> sign (c * sign m) = sign m"
  by (auto simp: sign_def mult_less_0_iff zero_less_mult_iff)

lemma mat_times_matched:
  assumes "case s of Arr0 c \<Rightarrow> True | Arr1 v \<Rightarrow> length v = ncols X"
  shows "\<exists>X'. mat_times X s = Inr X' \<and> ncols X' = ncols X"
  using assms by (cases s) auto

lemma flipped_same_sign:
  assumes "list_all (\<lambda>v. 0 \<le> v) c"
    and "case cm of Arr0 a \<Rightarrow> True | Arr1 v \<Rightarrow> length v = length c"
  shows "\<exists>r. nd_binop (\<lambda>a b. a * b) (Arr1 c) (nd_map sign cm) = Inr r \<and> same_sign_or_zero r cm"
proof (cases cm)
  case (Arr0 a)
  have "\<forall>x\<in>set c. x = 0 \<or> sign a = 0 \<or> sign (x * sign a) = sign a"
    using assms(1) sign_product unfolding list_all_iff by blast
  then have "list_all (\<lambda>c'. c' = 0 \<or> sign c' = sign a) (map (\<lambda>x. x * sign a) c)"
    by (simp add: list_all_iff)
  then show ?thesis using Arr0 by simp
next
  case (Arr1 v)
  with assms(2) have len: "length v = length c" by simp
  have "list_all2 (\<lambda>c m. c = 0 \<or> sign c = sign m) (map2 (\<lambda>a b. a * b) c (map sign v)) v"
    using assms(1) len
    by (simp add: list_all2_conv_all_nth list_all_length sign_product)
  then show ?thesis using Arr1 len by simp
qed

subsection \<open>Dividing the marginal effects by the number of features\<close>

text \<open>
  Claim C10.  For every \<open>X\<close> with \<open>d\<close> features and every \<open>y\<close>, all other
  configuration equal, \<open>_fit_marginal\<close> with \<open>marginal_divide_by_d=True\<close> returns
  exactly what it returns with the flag off, divided elementwise by \<open>d\<close> (and raises
  exactly when the other raises).
\<close>

theorem fit_marginal_divide_by_d:
  "fit_marginal env (cfg\<lparr>marginal_divide_by_d := True\<rparr>) X y w =
     (case fit_marginal env (cfg\<lparr>marginal_divide_by_d := False\<rparr>) X y w of
        Inl e \<Rightarrow> Inl e
      | Inr v \<Rightarrow> Inr (nd_map (\<lambda>c. c / real (ncols X)) v))"
  by (simp add: fit_marginal_def get_est_from_name_def split: sum.splits option.splits)

theorem fit_marginal_divide_by_d_witness:
  "fit_marginal demo_sklearn (default_regressor \<lparr> marginal_divide_by_d := False \<rparr>)
      (p_X prepared_demo) (p_y prepared_demo) [1, 1, 1, 1] = Inr (Arr1 [2 / 3, - (1 / 3)])
   \<and> fit_marginal demo_sklearn (default_regressor \<lparr> marginal_divide_by_d := True \<rparr>)
      (p_X prepared_demo) (p_y prepared_demo) [1, 1, 1, 1] = Inr (Arr1 [1 / 3, - (1 / 6)])"
proof -
  have off: "fit_marginal demo_sklearn (default_regressor \<lparr> marginal_divide_by_d := False \<rparr>)
      (p_X prepared_demo) (p_y prepared_demo) [1, 1, 1, 1] = Inr (Arr1 [2 / 3, - (1 / 3)])"
    by (simp add: demo_defs prepared_demo_def)
  show ?thesis
    using fit_marginal_divide_by_d [of demo_sklearn default_regressor "p_X prepared_demo"
        "p_y prepared_demo" "[1, 1, 1, 1]"] off
    by (simp add: prepared_demo_def)
qed

subsection \<open>The sign-constrained branch\<close>

text \<open>
  Claim C7, as amended.  With \<open>marginal_sign_constraint=True\<close>, once validation,
  scaling and the marginal fits have succeeded: \<open>fit\<close> raises \<open>AssertionError\<close> for
  each recognised main-estimator name other than \<open>"NNLS"\<close> (\<open>"ridge"\<close>, \<open>"ols"\<close>,
  \<open>None\<close>, \<open>"None"\<close>); an unrecognised name raises \<open>KeyError\<close> in the name lookup,
  before the assertion is reached; and with \<open>"NNLS"\<close>, whose coefficients the library
  returns non-negative and one per column, \<open>fit\<close> fails only if the library's fit
  fails, and otherwise returns a model in which every coefficient is zero or has the sign
  of its marginal coefficient.
\<close>

theorem sign_constraint_fit:
  assumes sc: "marginal_sign_constraint cfg"
    and prep: "fit_prepare env cfg X y w = Inr p"
    and nonneg: "\<forall>X' y' w' c. fit_coef env (ElasticNetCV (alphas cfg)) X' y' w' = Inr c
                   \<longrightarrow> length c = ncols X' \<and> list_all (\<lambda>v. 0 \<le> v) c"
  shows "(est_main_name cfg \<in> {Some ''ridge'', Some ''ols'', None, Some ''None''}
            \<longrightarrow> fit env cfg X y w = Inl AssertionError)
       \<and> (est_main_name cfg \<notin> {Some ''ridge'', Some ''ols'', Some ''NNLS'', None, Some ''None''}
            \<longrightarrow> fit env cfg X y w = Inl KeyError)
       \<and> (est_main_name cfg = Some ''NNLS''
            \<longrightarrow> (\<exists>X'. mat_times (p_X p) (nd_map sign (p_coef_marginal p)) = Inr X'
                  \<and> (case fit_coef env (ElasticNetCV (alphas cfg)) X' (p_y p) (Some (p_sample_weight p)) of
                       Inl e \<Rightarrow> fit env cfg X y w = Inl e
                     | Inr c \<Rightarrow> (\<exists>m. fit env cfg X y w = Inr m
                                    \<and> same_sign_or_zero (coef m) (coef_marginal m)))))"
proof (intro conjI impI)
  assume "est_main_name cfg \<in> {Some ''ridge'', Some ''ols'', None, Some ''None''}"
  then show "fit env cfg X y w = Inl AssertionError"
    using sc prep by (auto simp: fit_def fit_main_def get_est_from_name_def)
next
  assume "est_main_name cfg \<notin> {Some ''ridge'', Some ''ols'', Some ''NNLS'', None, Some ''None''}"
  then show "fit env cfg X y w = Inl KeyError"
    using sc prep by (auto simp: fit_def fit_main_def get_est_from_name_def)
next
  assume nnls: "est_main_name cfg = Some ''NNLS''"
  let ?cm = "p_coef_marginal p"
  have shape: "case ?cm of Arr0 c \<Rightarrow> ncols (p_X p) = 1 | Arr1 v \<Rightarrow> length v = ncols (p_X p)"
    using fit_marginal_shape [OF fit_prepare_marginal [OF prep]] .
  then have "case nd_map sign ?cm of Arr0 c \<Rightarrow> True | Arr1 v \<Rightarrow> length v = ncols (p_X p)"
    by (cases ?cm) auto
  from mat_times_matched [OF this]
  obtain X' where X': "mat_times (p_X p) (nd_map sign ?cm) = Inr X'" "ncols X' = ncols (p_X p)"
    by blast
  have main: "get_est_from_name cfg (est_main_name cfg) = Inr (Some (ElasticNetCV (alphas cfg)))"
    using nnls by (simp add: get_est_from_name_def)
  show "\<exists>X'. mat_times (p_X p) (nd_map sign ?cm) = Inr X'
          \<and> (case fit_coef env (ElasticNetCV (alphas cfg)) X' (p_y p) (Some (p_sample_weight p)) of
               Inl e \<Rightarrow> fit env cfg X y w = Inl e
             | Inr c \<Rightarrow> (\<exists>m. fit env cfg X y w = Inr m
                            \<and> same_sign_or_zero (coef m) (coef_marginal m)))"
  proof (cases "fit_coef env (ElasticNetCV (alphas cfg)) X' (p_y p) (Some (p_sample_weight p))")
    case (Inl e)
    then have "fit env cfg X y w = Inl e"
      using sc prep nnls main X' by (simp add: fit_def fit_main_def Let_def)
    then show ?thesis using X' Inl by simp
  next
    case (Inr c)
    from nonneg Inr have c: "length c = ncols X'" "list_all (\<lambda>v. 0 \<le> v) c" by blast+
    have "case ?cm of Arr0 a \<Rightarrow> True | Arr1 v \<Rightarrow> length v = length c"
      using shape c(1) X'(2) by (cases ?cm) auto
    from flipped_same_sign [OF c(2) this]
    obtain r where r: "nd_binop (\<lambda>a b. a * b) (Arr1 c) (nd_map sign ?cm) = Inr r"
      "same_sign_or_zero r ?cm" by blast
    have "fit env cfg X y w = Inr (finish p (ElasticNetCV (alphas cfg)) r)"
      using sc prep nnls main X' Inr r by (simp add: fit_def fit_main_def Let_def)
    then show ?thesis using X' Inr r by (simp add: finish_def)
  qed
qed

theorem sign_constraint_fit_witness:
  "marginal_sign_constraint signed_nnls
   \<and> est_main_name signed_nnls = Some ''NNLS''
   \<and> fit_prepare demo_sklearn signed_nnls X_demo y_demo None = Inr prepared_demo
   \<and> (\<exists>m. fit demo_sklearn signed_nnls X_demo y_demo None = Inr m
          \<and> coef m = Arr1 [2 / 3, - (1 / 3)]
          \<and> coef_marginal m = Arr1 [1 / 3, - (1 / 6)]
          \<and> same_sign_or_zero (coef m) (coef_marginal m))"
proof -
  have sc: "marginal_sign_constraint signed_nnls"
    by (simp add: signed_nnls_def)
  have nm: "est_main_name signed_nnls = Some ''NNLS''"
    by (simp add: signed_nnls_def)
  have prep: "fit_prepare demo_sklearn signed_nnls X_demo y_demo None = Inr prepared_demo"
    unfolding signed_nnls_def by (rule fit_prepare_demo)
  have fitted: "fit demo_sklearn signed_nnls X_demo y_demo None =
      Inr (finish prepared_demo (ElasticNetCV (alphas signed_nnls)) (Arr1 [2 / 3, - (1 / 3)]))"
    using prep nm sc
    by (simp add: fit_def fit_main_def get_est_from_name_def prepared_demo_def demo_sklearn_def
        sign_def column_def slope_def dot_def upt_conv_Cons Let_def)
  have nonneg: "\<forall>X' y' w' c. fit_coef demo_sklearn (ElasticNetCV (alphas signed_nnls)) X' y' w' = Inr c
                   \<longrightarrow> length c = ncols X' \<and> list_all (\<lambda>v. 0 \<le> v) c"
    using demo_nonneg by blast
  from sign_constraint_fit [OF sc prep nonneg] nm
  obtain X' where
    "case fit_coef demo_sklearn (ElasticNetCV (alphas signed_nnls)) X' (p_y prepared_demo)
            (Some (p_sample_weight prepared_demo)) of
       Inl e \<Rightarrow> fit demo_sklearn signed_nnls X_demo y_demo None = Inl e
     | Inr c \<Rightarrow> (\<exists>m. fit demo_sklearn signed_nnls X_demo y_demo None = Inr m
                     \<and> same_sign_or_zero (coef m) (coef_marginal m))"
    by blast
  then have "\<exists>m. fit demo_sklearn signed_nnls X_demo y_demo None = Inr m
                     \<and> same_sign_or_zero (coef m) (coef_marginal m)"
    using fitted by (auto split: sum.splits)
  then show ?thesis
    using sc nm prep fitted by (auto simp: finish_def prepared_demo_def)
qed

text \<open>
  The claim as stated fails for a main-estimator name outside the vocabulary: the
  error is a \<open>KeyError\<close>, not an assertion error.
\<close>

theorem sign_constraint_unknown_name:
  "marginal_sign_constraint signed_lasso
   \<and> est_main_name signed_lasso \<noteq> Some ''NNLS''
   \<and> fit demo_sklearn signed_lasso X_demo y_demo None = Inl KeyError
   \<and> fit demo_sklearn signed_lasso X_demo y_demo None \<noteq> Inl AssertionError"
  by (simp add: demo_defs)

subsection \<open>Without a main estimator\<close>

lemma fit_prepare_scaler_length:
  assumes "fit_prepare env cfg X y w = Inr p"
  shows "length (sc_mean (p_scalar_X p)) = ncols (p_X p)"
  using assms
  by (auto simp: fit_prepare_def Let_def scaler_transform_def split: sum.splits prod.splits if_splits)

lemma fit_no_main_model:
  assumes nsc: "\<not> marginal_sign_constraint cfg"
    and none: "est_main_name cfg = None \<or> est_main_name cfg = Some ''None''"
    and fitted: "fit env cfg X y w = Inr m"
  shows "\<exists>p. fit_prepare env cfg X y w = Inr p \<and> m = finish p RidgeCV_default (p_coef_marginal p)"
proof -
  have lookup: "get_est_from_name cfg (est_main_name cfg) = Inr None"
    using none by (auto simp: get_est_from_name_def)
  from fitted obtain p where prep: "fit_prepare env cfg X y w = Inr p"
    and main: "fit_main env cfg p = Inr m"
    by (auto simp: fit_def split: sum.splits)
  from main nsc lookup have "m = finish p RidgeCV_default (p_coef_marginal p)"
    by (auto simp: fit_main_def split: sum.splits)
  with prep show ?thesis by blast
qed

text \<open>
  Claim C8.  Without a main estimator the final coefficients are the marginal
  coefficients, and \<open>predict\<close> is to return the inverse target scaling of the product
  of the scaled \<open>X'\<close> with them.  With a single feature and a marginal estimator the
  fit succeeds, but no prediction can be made afterwards: \<open>squeeze\<close> has made the
  marginal coefficient zero-dimensional, the placeholder estimator's \<open>coef_\<close> is that
  zero-dimensional array, and the matrix product in its \<open>predict\<close> raises
  \<open>ValueError\<close>, whatever \<open>X'\<close> is.
\<close>

theorem no_main_single_feature_predict_raises:
  "ncols X_one_feature = 1
   \<and> est_main_name no_main = None
   \<and> \<not> marginal_sign_constraint no_main
   \<and> (\<exists>m. fit demo_sklearn no_main X_one_feature y_demo None = Inr m
          \<and> coef m = Arr0 (2 / 3)
          \<and> coef_marginal m = Arr0 (2 / 3)
          \<and> predict m X_one_feature = Inl ValueError
          \<and> (\<forall>X'. predict m X' = Inl ValueError))"
proof -
  have fitted: "fit demo_sklearn no_main X_one_feature y_demo None
          = Inr \<lparr> scalar_X = \<lparr> sc_mean = [1], sc_scale = [1] \<rparr>,
                  scalar_y = Some \<lparr> sc_mean = [2], sc_scale = [3] \<rparr>,
                  classes = None, coef_marginal = Arr0 (2 / 3), est_main = RidgeCV_default,
                  coef = Arr0 (2 / 3) \<rparr>"
    by (simp add: demo_defs)
  have "predict \<lparr> scalar_X = \<lparr> sc_mean = [1], sc_scale = [1] \<rparr>,
                  scalar_y = Some \<lparr> sc_mean = [2], sc_scale = [3] \<rparr>,
                  classes = None, coef_marginal = Arr0 (2 / 3), est_main = RidgeCV_default,
                  coef = Arr0 (2 / 3) \<rparr> X' = Inl ValueError" for X'
    by (simp add: predict_def scaler_transform_def)
  then show ?thesis
    using fitted by (simp add: X_one_feature_def no_main_def default_regressor_def init_def)
qed

text \<open>
  Whatever the library computes: with a marginal estimator, no main estimator and a
  single feature, every model that \<open>fit\<close> returns has zero-dimensional coefficients,
  and its \<open>predict\<close> raises \<open>ValueError\<close> on every input.
\<close>

theorem single_feature_no_main_predict_raises:
  assumes nsc: "\<not> marginal_sign_constraint cfg"
    and none: "est_main_name cfg = None \<or> est_main_name cfg = Some ''None''"
    and marg: "get_est_from_name cfg (est_marginal_name cfg) = Inr (Some em)"
    and chk: "check_X_y env X y = Inr (X1, y1)"
    and one: "ncols X1 = 1"
    and fitted: "fit env cfg X y w = Inr m"
  shows "(\<exists>c. coef m = Arr0 c \<and> coef_marginal m = Arr0 c)
       \<and> (\<forall>X'. predict m X' = Inl ValueError)"
proof -
  from fit_no_main_model [OF nsc none fitted] obtain p where
    prep: "fit_prepare env cfg X y w = Inr p"
    and m: "m = finish p RidgeCV_default (p_coef_marginal p)"
    by blast
  have "ncols (p_X p) = 1"
    using fit_prepare_ncols [OF prep chk] one by simp
  from fit_marginal_one_feature [OF fit_prepare_marginal [OF prep] marg this]
  obtain c where c: "p_coef_marginal p = Arr0 c" by blast
  have "predict m X' = Inl ValueError" for X'
    by (simp add: predict_def m finish_def c scaler_transform_def)
  then show ?thesis
    using m c by (simp add: finish_def)
qed

theorem single_feature_no_main_predict_raises_witness:
  "\<not> marginal_sign_constraint no_main
   \<and> est_main_name no_main = None
   \<and> get_est_from_name no_main (est_marginal_name no_main)
        = Inr (Some (RidgeCV [1 / 10, 1, 10, 100, 1000, 10000]))
   \<and> check_X_y demo_sklearn X_one_feature y_demo = Inr (X_one_feature, [- 1, 1, 7, 1])
   \<and> ncols X_one_feature = 1
   \<and> (\<exists>m. fit demo_sklearn no_main X_one_feature y_demo None = Inr m
          \<and> coef m = Arr0 (2 / 3)
          \<and> predict m (Matrix 1 [[5]]) = Inl ValueError
          \<and> predict m X_demo = Inl ValueError)"
proof -
  let ?est = "RidgeCV [1 / 10, 1, 10, 100, 1000, 10000]"
  have nsc: "\<not> marginal_sign_constraint no_main"
    and nm: "est_main_name no_main = None \<or> est_main_name no_main = Some ''None''"
    and marg: "get_est_from_name no_main (est_marginal_name no_main) = Inr (Some ?est)"
    by (simp_all add: no_main_def default_regressor_def init_def get_est_from_name_def)
  have chk: "check_X_y demo_sklearn X_one_feature y_demo = Inr (X_one_feature, [- 1, 1, 7, 1])"
    by (simp add: demo_sklearn_def X_one_feature_def y_demo_def nrows_def)
  have one: "ncols X_one_feature = 1"
    by (simp add: X_one_feature_def)
  have "\<exists>m. fit demo_sklearn no_main X_one_feature y_demo None = Inr m \<and> coef m = Arr0 (2 / 3)"
    by (simp add: demo_defs)
  then obtain m where m: "fit demo_sklearn no_main X_one_feature y_demo None = Inr m"
    "coef m = Arr0 (2 / 3)"
    by blast
  from single_feature_no_main_predict_raises [OF nsc nm marg chk one m(1)]
  have "predict m (Matrix 1 [[5]]) = Inl ValueError" "predict m X_demo = Inl ValueError"
    by blast+
  then show ?thesis
    using nsc nm marg chk one m by (auto simp: no_main_def)
qed

text \<open>
  With a one-dimensional marginal coefficient vector (two features or more, or no
  marginal estimator), \<open>marginal_sign_constraint=False\<close> and \<open>est_main_name\<close>
  \<open>None\<close> or \<open>"None"\<close>: once validation, scaling and the marginal fits have
  succeeded, the scaled target is one-dimensional and the placeholder ridge fit on the
  first five rows succeeds, \<open>fit\<close> returns a model whose coefficients are exactly the
  marginal coefficients, whatever the placeholder fit computed; \<open>predict\<close> on any
  \<open>X'\<close> is the inverse target scaling of the product of the scaled \<open>X'\<close> with the
  marginal coefficients; and for the regressor \<open>predict\<close> returns, on every \<open>X'\<close>
  with the column count of the training data, \<open>pred * scale + mean\<close> entrywise.
\<close>

theorem no_main_estimator_fit:
  assumes nsc: "\<not> marginal_sign_constraint cfg"
    and none: "est_main_name cfg = None \<or> est_main_name cfg = Some ''None''"
    and prep: "fit_prepare env cfg X y w = Inr p"
    and y: "p_y p = Arr1 ys"
    and dummy: "fit_coef env RidgeCV_default (take_rows 5 (p_X p)) (Arr1 (take 5 ys)) None = Inr c"
    and vec: "p_coef_marginal p = Arr1 cm"
  shows "\<exists>m. fit env cfg X y w = Inr m
           \<and> coef m = Arr1 cm
           \<and> coef_marginal m = Arr1 cm
           \<and> (\<forall>X'. predict m X' =
                 (case scaler_transform (p_scalar_X p) X' of
                    Inl e \<Rightarrow> Inl e
                  | Inr Xs \<Rightarrow>
                      (case p_scalar_y p of
                         None \<Rightarrow> Inl AttributeError
                       | Some sy \<Rightarrow> inverse_scale sy (Arr1 (map (\<lambda>r. dot r cm) (mrows Xs))))))
           \<and> (is_regressor cfg \<longrightarrow>
                (\<exists>mu sd. p_scalar_y p = Some \<lparr> sc_mean = [mu], sc_scale = [sd] \<rparr>
                   \<and> (\<forall>X'. ncols X' = ncols (p_X p) \<longrightarrow>
                         (\<exists>Xs. scaler_transform (p_scalar_X p) X' = Inr Xs
                            \<and> predict m X'
                                = Inr (squeeze_n_by_1 (map (\<lambda>r. dot r cm * sd + mu) (mrows Xs)))))))"
proof -
  let ?m = "finish p RidgeCV_default (p_coef_marginal p)"
  have lookup: "get_est_from_name cfg (est_main_name cfg) = Inr None"
    using none by (auto simp: get_est_from_name_def)
  have fit: "fit env cfg X y w = Inr ?m"
    using nsc prep y dummy lookup by (simp add: fit_def fit_main_def)
  have shape: "length cm = ncols (p_X p)"
    using fit_marginal_shape [OF fit_prepare_marginal [OF prep]] vec by simp
  have cols: "length (sc_mean (p_scalar_X p)) = ncols (p_X p)"
    by (rule fit_prepare_scaler_length [OF prep])
  have mm: "matmul Xs (Arr1 cm) = Inr (Arr1 (map (\<lambda>r. dot r cm) (mrows Xs)))"
    if "scaler_transform (p_scalar_X p) X' = Inr Xs" for X' Xs
    using that shape cols by (auto simp: scaler_transform_def split: if_splits)
  have pred: "predict ?m X' =
                 (case scaler_transform (p_scalar_X p) X' of
                    Inl e \<Rightarrow> Inl e
                  | Inr Xs \<Rightarrow>
                      (case p_scalar_y p of
                         None \<Rightarrow> Inl AttributeError
                       | Some sy \<Rightarrow> inverse_scale sy (Arr1 (map (\<lambda>r. dot r cm) (mrows Xs)))))" for X'
    using mm [of X'] by (simp add: predict_def finish_def vec split: sum.splits)
  have regr: "\<exists>mu sd. p_scalar_y p = Some \<lparr> sc_mean = [mu], sc_scale = [sd] \<rparr>
                   \<and> (\<forall>X'. ncols X' = ncols (p_X p) \<longrightarrow>
                         (\<exists>Xs. scaler_transform (p_scalar_X p) X' = Inr Xs
                            \<and> predict ?m X'
                                = Inr (squeeze_n_by_1 (map (\<lambda>r. dot r cm * sd + mu) (mrows Xs)))))"
    if "is_regressor cfg"
  proof -
    from fit_prepare_scalar_y [OF prep that]
    obtain mu sd where sy: "p_scalar_y p = Some \<lparr> sc_mean = [mu], sc_scale = [sd] \<rparr>" by blast
    have "\<exists>Xs. scaler_transform (p_scalar_X p) X' = Inr Xs
                \<and> predict ?m X' = Inr (squeeze_n_by_1 (map (\<lambda>r. dot r cm * sd + mu) (mrows Xs)))"
      if "ncols X' = ncols (p_X p)" for X'
    proof -
      from that cols obtain Xs where t: "scaler_transform (p_scalar_X p) X' = Inr Xs"
        by (simp add: scaler_transform_def)
      then show ?thesis
        by (simp add: pred sy inverse_scale_vector comp_def)
    qed
    with sy show ?thesis by blast
  qed
  show ?thesis
    using fit pred regr vec by (intro exI [of _ ?m]) (simp add: finish_def)
qed

theorem no_main_estimator_fit_witness:
  "\<not> marginal_sign_constraint no_main
   \<and> est_main_name no_main = None
   \<and> is_regressor no_main
   \<and> fit_prepare demo_sklearn no_main X_demo y_demo None = Inr prepared_demo
   \<and> p_coef_marginal prepared_demo = Arr1 [1 / 3, - (1 / 6)]
   \<and> ncols X_demo = ncols (p_X prepared_demo)
   \<and> (\<exists>m. fit demo_sklearn no_main X_demo y_demo None = Inr m
          \<and> coef m = Arr1 [1 / 3, - (1 / 6)]
          \<and> coef_marginal m = Arr1 [1 / 3, - (1 / 6)]
          \<and> predict m X_demo = Inr (Arr1 [3 / 2, 1 / 2, 7 / 2, 5 / 2]))"
proof -
  have nsc: "\<not> marginal_sign_constraint no_main"
    and nm: "est_main_name no_main = None \<or> est_main_name no_main = Some ''None''"
    and regr: "is_regressor no_main"
    by (simp_all add: no_main_def default_regressor_def init_def)
  have "fit_prepare demo_sklearn (default_regressor \<lparr> est_main_name := None, marginal_sign_constraint := False \<rparr>)
     X_demo y_demo None = Inr prepared_demo"
    by (rule fit_prepare_demo)
  then have prep: "fit_prepare demo_sklearn no_main X_demo y_demo None = Inr prepared_demo"
    by (simp add: no_main_def default_regressor_def init_def)
  have y: "p_y prepared_demo = Arr1 [- 1, - (1 / 3), 5 / 3, - (1 / 3)]"
    by (simp add: prepared_demo_def)
  have vec: "p_coef_marginal prepared_demo = Arr1 [1 / 3, - (1 / 6)]"
    by (simp add: prepared_demo_def)
  have cols: "ncols X_demo = ncols (p_X prepared_demo)"
    by (simp add: prepared_demo_def X_demo_def)
  have dummy: "fit_coef demo_sklearn RidgeCV_default (take_rows 5 (p_X prepared_demo))
                 (Arr1 (take 5 [- 1, - (1 / 3), 5 / 3, - (1 / 3)])) None
               = Inr (map (\<lambda>i. slope (column (take_rows 5 (p_X prepared_demo)) i)
                                  (take 5 [- 1, - (1 / 3), 5 / 3, - (1 / 3)]))
                       [0..<ncols (take_rows 5 (p_X prepared_demo))])"
    by (simp add: demo_sklearn_def)
  from no_main_estimator_fit [OF nsc nm prep y dummy vec]
  obtain m where m: "fit demo_sklearn no_main X_demo y_demo None = Inr m"
    "coef m = Arr1 [1 / 3, - (1 / 6)]" "coef_marginal m = Arr1 [1 / 3, - (1 / 6)]"
    "\<And>X'. predict m X' =
                 (case scaler_transform (p_scalar_X prepared_demo) X' of
                    Inl e \<Rightarrow> Inl e
                  | Inr Xs \<Rightarrow>
                      (case p_scalar_y prepared_demo of
                         None \<Rightarrow> Inl AttributeError
                       | Some sy \<Rightarrow>
                           inverse_scale sy (Arr1 (map (\<lambda>r. dot r [1 / 3, - (1 / 6)]) (mrows Xs)))))"
    by blast
  have "predict m X_demo = Inr (Arr1 [3 / 2, 1 / 2, 7 / 2, 5 / 2])"
    by (simp add: m(4) prepared_demo_def X_demo_def scaler_transform_def dot_def
        inverse_scale_vector squeeze_n_by_1_def)
  then show ?thesis
    using nsc regr prep vec cols m(1-3) by (auto simp: no_main_def)
qed

subsection \<open>The standard branch\<close>

text \<open>
  Claim C3.  On the standard branch the final coefficients are the main estimator's
  coefficients on the residual target plus the marginal coefficients.  With a single
  feature and a marginal estimator the code does not get there: \<open>squeeze\<close> has made the
  marginal coefficient zero-dimensional and the matrix product \<open>X @ coef_marginal_\<close>
  raises \<open>ValueError\<close>.
\<close>

theorem fit_single_feature_raises:
  "ncols X_one_feature = 1
   \<and> fit demo_sklearn default_regressor X_one_feature y_demo None = Inl ValueError"
  by (simp add: demo_defs)

text \<open>
  With a one-dimensional marginal coefficient vector (two features or more, or no
  marginal estimator) the standard branch returns the main estimator's coefficients on
  the residual target plus the marginal coefficients.
\<close>

theorem standard_path_coefficients:
  assumes nsc: "\<not> marginal_sign_constraint cfg"
    and main: "get_est_from_name cfg (est_main_name cfg) = Inr (Some est)"
    and prep: "fit_prepare env cfg X y w = Inr p"
    and vec: "p_coef_marginal p = Arr1 cm"
    and res: "nd_binop (\<lambda>a b. a - b) (p_y p) (Arr1 (map (\<lambda>r. dot r cm) (mrows (p_X p)))) = Inr residuals"
    and fitted: "fit_coef env est (p_X p) residuals (Some (p_sample_weight p)) = Inr c"
    and len: "length c = ncols (p_X p)"
  shows "\<exists>m. fit env cfg X y w = Inr m
           \<and> coef m = Arr1 (map2 (\<lambda>a b. a + b) c cm)
           \<and> coef_marginal m = Arr1 cm"
proof -
  have shape: "length cm = ncols (p_X p)"
    using fit_marginal_shape [OF fit_prepare_marginal [OF prep]] vec by simp
  then have mm: "matmul (p_X p) (p_coef_marginal p) = Inr (Arr1 (map (\<lambda>r. dot r cm) (mrows (p_X p))))"
    using vec by simp
  have "fit env cfg X y w = Inr (finish p est (Arr1 (map2 (\<lambda>a b. a + b) c cm)))"
    using nsc main prep vec mm res fitted len shape
    by (simp add: fit_def fit_main_def)
  then show ?thesis using vec by (simp add: finish_def)
qed

theorem standard_path_coefficients_witness:
  "\<not> marginal_sign_constraint default_regressor
   \<and> get_est_from_name default_regressor (est_main_name default_regressor)
       = Inr (Some (RidgeCV [1 / 10, 1, 10, 100, 1000, 10000]))
   \<and> fit_prepare demo_sklearn default_regressor X_demo y_demo None = Inr prepared_demo
   \<and> (\<exists>m. fit demo_sklearn default_regressor X_demo y_demo None = Inr m
          \<and> coef m = Arr1 [2 / 3, - (1 / 3)]
          \<and> coef_marginal m = Arr1 [1 / 3, - (1 / 6)])"
proof -
  let ?est = "RidgeCV [1 / 10, 1, 10, 100, 1000, 10000]"
  have nsc: "\<not> marginal_sign_constraint default_regressor"
    and main: "get_est_from_name default_regressor (est_main_name default_regressor) = Inr (Some ?est)"
    by (simp_all add: default_regressor_def init_def get_est_from_name_def)
  have "fit_prepare demo_sklearn (default_regressor \<lparr> est_main_name := Some ''ridge'',
            marginal_sign_constraint := False \<rparr>) X_demo y_demo None = Inr prepared_demo"
    by (rule fit_prepare_demo)
  then have prep: "fit_prepare demo_sklearn default_regressor X_demo y_demo None = Inr prepared_demo"
    by (simp add: default_regressor_def init_def)
  have vec: "p_coef_marginal prepared_demo = Arr1 [1 / 3, - (1 / 6)]"
    by (simp add: prepared_demo_def)
  have res: "nd_binop (\<lambda>a b. a - b) (p_y prepared_demo)
               (Arr1 (map (\<lambda>r. dot r [1 / 3, - (1 / 6)]) (mrows (p_X prepared_demo))))
             = Inr (Arr1 [- (5 / 6), 1 / 6, 7 / 6, - (1 / 2)])"
    by (simp add: prepared_demo_def dot_def)
  have fitted: "fit_coef demo_sklearn ?est (p_X prepared_demo) (Arr1 [- (5 / 6), 1 / 6, 7 / 6, - (1 / 2)])
                  (Some (p_sample_weight prepared_demo)) = Inr [1 / 3, - (1 / 6)]"
    by (simp add: demo_sklearn_def prepared_demo_def slope_def dot_def column_def upt_conv_Cons)
  have len: "length [1 / 3, - (1 / 6) :: real] = ncols (p_X prepared_demo)"
    by (simp add: prepared_demo_def)
  from standard_path_coefficients [OF nsc main prep vec res fitted len]
  show ?thesis using nsc main prep by simp
qed

text \<open>
  Whatever the library computes: with a marginal estimator and a single feature the
  standard branch never returns a model, and once validation, scaling and the marginal
  fit have succeeded the error is the \<open>ValueError\<close> of the matrix product.
\<close>

theorem single_feature_standard_path_raises:
  assumes nsc: "\<not> marginal_sign_constraint cfg"
    and main: "get_est_from_name cfg (est_main_name cfg) = Inr (Some est)"
    and marg: "get_est_from_name cfg (est_marginal_name cfg) = Inr (Some em)"
    and chk: "check_X_y env X y = Inr (X1, y1)"
    and one: "ncols X1 = 1"
  shows "(\<exists>e. fit env cfg X y w = Inl e)
       \<and> (\<forall>p. fit_prepare env cfg X y w = Inr p \<longrightarrow> fit env cfg X y w = Inl ValueError)"
proof -
  have v: "fit env cfg X y w = Inl ValueError" if prep: "fit_prepare env cfg X y w = Inr p" for p
  proof -
    have "ncols (p_X p) = 1"
      using fit_prepare_ncols [OF prep chk] one by simp
    from fit_marginal_one_feature [OF fit_prepare_marginal [OF prep] marg this]
    obtain c where "p_coef_marginal p = Arr0 c" by blast
    then show ?thesis
      using nsc main prep by (simp add: fit_def fit_main_def)
  qed
  then have "\<exists>e. fit env cfg X y w = Inl e"
    by (cases "fit_prepare env cfg X y w") (auto simp: fit_def)
  then show ?thesis using v by blast
qed

theorem single_feature_standard_path_raises_witness:
  "\<not> marginal_sign_constraint default_regressor
   \<and> get_est_from_name default_regressor (est_main_name default_regressor)
        = Inr (Some (RidgeCV [1 / 10, 1, 10, 100, 1000, 10000]))
   \<and> get_est_from_name default_regressor (est_marginal_name default_regressor)
        = Inr (Some (RidgeCV [1 / 10, 1, 10, 100, 1000, 10000]))
   \<and> check_X_y demo_sklearn X_one_feature y_demo = Inr (X_one_feature, [- 1, 1, 7, 1])
   \<and> ncols X_one_feature = 1
   \<and> (\<exists>e. fit demo_sklearn default_regressor X_one_feature y_demo None = Inl e)"
proof -
  let ?est = "RidgeCV [1 / 10, 1, 10, 100, 1000, 10000]"
  have nsc: "\<not> marginal_sign_constraint default_regressor"
    and main: "get_est_from_name default_regressor (est_main_name default_regressor) = Inr (Some ?est)"
    and marg: "get_est_from_name default_regressor (est_marginal_name default_regressor) = Inr (Some ?est)"
    by (simp_all add: default_regressor_def init_def get_est_from_name_def)
  have chk: "check_X_y demo_sklearn X_one_feature y_demo = Inr (X_one_feature, [- 1, 1, 7, 1])"
    by (simp add: demo_sklearn_def X_one_feature_def y_demo_def nrows_def)
  have one: "ncols X_one_feature = 1"
    by (simp add: X_one_feature_def)
  from single_feature_standard_path_raises [OF nsc main marg chk one, of None]
  show ?thesis using nsc main marg chk one by blast
qed

section \<open>Properties of the importance pipeline\<close>

subsection \<open>Evaluation on the sample data\<close>

lemmas calc_defs = get_aloo_fitted_parameters_def set_penalty_def loo_coefficients_def
  information_matrix_def demo_numlib_def inverse_small_def plain_estimator_def
  plain_calculator_def GlmAlooCalculator_def default_l_dot_def default_l_doubledot_def
  default_r_doubledot_def X_three_def y_three_def append_ones_def extract_merged_def
  extract_coef_and_intercept_def call_loss_def mat_mul_def mat_elementwise_def bcast_def
  bcast_dim_def transpose_m_def column_def column_matrix_def nrows_def mean_def dot_def
  set_last_zero_def diag_def add_in_place_def sum_axis0_def sum_axis1_def mat_divide_def
  upt_conv_Cons Let_def

lemmas ppm_defs = ppm_fit_def loo_class_def loo_fit_model_def loo_fit_full_predictions_def
  loo_fit_partial_predictions_def get_aloocv_alpha_def per_sample_scores_def score_to_pred_def
  trim_values_def call_scorer_def mean_squared_error_def argmin_def new_ppm_def RidgeLOOPPM_def
  GenericLOOPPM_def Ridge_def one_block_def get_all_data_def hstack_def n_blocks_def
  select_block_def get_block_indices_def get_block_def block_range_def block_start_def
  select_columns_def py_index_def np_repeat_def

lemmas gmdi_defs = fit_importance_scores_def prepare_data_def get_scores_def fit_one_target_def
  np_NaN_def
  score_partial_predictions_def keep_k_score_def keep_rest_score_def call_scoring_def lookup_def
  get_partial_predictions_def get_full_predictions_def unpack2_def
  unpack3_def target_column_def GMDI_def GMDIEnsemble_def raw_transformer_def
  empty_transformer_def mean_class_def mean_prediction_def scorer_raw_def scorer_empty_def
  y_four_def Y_three_columns_def three_members_def reported_def opposite_infinities_def
  ens_fit_importance_scores_def ens_get_scores_def nanmean_axis0_def nanmean_column_def
  gmdi_train_test_split_def blocked_train_test_split_def select_target_def select_rows_def
  select_entries_def ppm_fit_def new_ppm_def get_all_data_def hstack_def n_blocks_def
  X_demo_def X_three_def y_three_def column_matrix_def column_def nrows_def mean_def
  upt_conv_Cons Let_def

lemma ridge_demo_fit:
  "\<exists>m. ppm_fit (loo_class demo_numlib) (new_ppm (RidgeLOOPPM [1] True)) one_block y_three
          one_block (Some y_three) ''keep_k'' = Inr m
       \<and> fixed_intercept (subclass_state m)
       \<and> extract_coef_and_intercept (estimator_of (aloo_calculator (subclass_state m)))
           = Inr ([0], Arr0 3)
       \<and> trim_of (aloo_calculator (subclass_state m)) = None
       \<and> link_fn (aloo_calculator (subclass_state m)) = (\<lambda>a. a)
       \<and> loo_fitted_parameters (aloo_calculator (subclass_state m))
           = Some (Matrix 3 [[- 2, 0, - 3], [7, 7 / 2, 3]])
       \<and> partial_preds_of m 0
           = Some ([7, 7 / 2, - 3], PArr2 (Matrix 2 [[- 2, 7], [0, 7 / 2], [- 3, 3]]))"
  by (simp add: ppm_defs calc_defs)

subsection \<open>The cache of the leave-one-out calculator\<close>

lemma set_penalty_idem:
  assumes "set_penalty est a1 = Inr (est1, u1)"
  shows "set_penalty est1 a = set_penalty est a"
  using assms
  by (auto simp: set_penalty_def split: attr.splits option.splits)

lemma loo_coefficients_config:
  assumes "link_fn s1 = link_fn s" "l_dot s1 = l_dot s" "l_doubledot s1 = l_doubledot s"
    "r_doubledot s1 = r_doubledot s"
  shows "loo_coefficients lib s1 est X y a = loo_coefficients lib s est X y a"
  unfolding loo_coefficients_def information_matrix_def assms by (rule refl)

text \<open>
  Claim C6.  Once a call of \<open>get_aloo_fitted_parameters\<close> with \<open>cache=True\<close> has
  stored a coefficient matrix, every later call on that instance returns that matrix and
  leaves the instance as it is, whatever \<open>X\<close>, \<open>y\<close>, \<open>alpha\<close> and \<open>cache\<close> are.
  Before that, a call computes the matrix from its arguments: a call without
  \<open>cache\<close> stores nothing, and the matrix a later call computes does not depend on the
  calls made before.
\<close>

theorem cached_parameters_returned:
  "(loo_fitted_parameters s = Some stored \<longrightarrow>
      get_aloo_fitted_parameters lib s X y alpha cache = Inr (stored, s))
   \<and> (loo_fitted_parameters s = None
        \<and> get_aloo_fitted_parameters lib s X y alpha True = Inr (loo, s1) \<longrightarrow>
      loo_fitted_parameters s1 = Some loo
      \<and> (\<forall>X' y' alpha' cache'.
            get_aloo_fitted_parameters lib s1 X' y' alpha' cache' = Inr (loo, s1)))
   \<and> (loo_fitted_parameters s = None
        \<and> get_aloo_fitted_parameters lib s X y alpha False = Inr (loo, s1) \<longrightarrow>
      loo_fitted_parameters s1 = None
      \<and> (\<forall>X' y' alpha' cache'.
            map_sum id fst (get_aloo_fitted_parameters lib s1 X' y' alpha' cache')
              = map_sum id fst (get_aloo_fitted_parameters lib s X' y' alpha' cache')))
   \<and> (loo_fitted_parameters s = None \<longrightarrow>
      map_sum id fst (get_aloo_fitted_parameters lib s X y alpha cache) =
        (case set_penalty (estimator_of s) alpha of
           Inl e \<Rightarrow> Inl e
         | Inr (est, alpha_used) \<Rightarrow> map_sum id fst (loo_coefficients lib s est X y alpha_used)))"
proof -
  have p1: "loo_fitted_parameters s = Some stored \<longrightarrow>
      get_aloo_fitted_parameters lib s X y alpha cache = Inr (stored, s)"
    by (simp add: get_aloo_fitted_parameters_def)
  have p2: "loo_fitted_parameters s = None
        \<and> get_aloo_fitted_parameters lib s X y alpha True = Inr (loo, s1) \<longrightarrow>
      loo_fitted_parameters s1 = Some loo
      \<and> (\<forall>X' y' alpha' cache'.
            get_aloo_fitted_parameters lib s1 X' y' alpha' cache' = Inr (loo, s1))"
  proof
    assume a: "loo_fitted_parameters s = None
        \<and> get_aloo_fitted_parameters lib s X y alpha True = Inr (loo, s1)"
    then have "loo_fitted_parameters s1 = Some loo"
      by (auto simp: get_aloo_fitted_parameters_def split: sum.splits prod.splits)
    then show "loo_fitted_parameters s1 = Some loo
      \<and> (\<forall>X' y' alpha' cache'.
            get_aloo_fitted_parameters lib s1 X' y' alpha' cache' = Inr (loo, s1))"
      by (simp add: get_aloo_fitted_parameters_def)
  qed
  have p3: "loo_fitted_parameters s = None
        \<and> get_aloo_fitted_parameters lib s X y alpha False = Inr (loo, s1) \<longrightarrow>
      loo_fitted_parameters s1 = None
      \<and> (\<forall>X' y' alpha' cache'.
            map_sum id fst (get_aloo_fitted_parameters lib s1 X' y' alpha' cache')
              = map_sum id fst (get_aloo_fitted_parameters lib s X' y' alpha' cache'))"
  proof
    assume a: "loo_fitted_parameters s = None
        \<and> get_aloo_fitted_parameters lib s X y alpha False = Inr (loo, s1)"
    then obtain est u where
      pen: "set_penalty (estimator_of s) alpha = Inr (est, u)"
      and s1: "s1 = s \<lparr> estimator_of := est \<rparr>"
      by (auto simp: get_aloo_fitted_parameters_def split: sum.splits prod.splits)
    have none: "loo_fitted_parameters s1 = None" using a s1 by simp
    have same: "map_sum id fst (get_aloo_fitted_parameters lib s1 X' y' alpha' cache')
              = map_sum id fst (get_aloo_fitted_parameters lib s X' y' alpha' cache')"
      for X' y' alpha' cache'
    proof -
      have p: "set_penalty (estimator_of s1) alpha' = set_penalty (estimator_of s) alpha'"
        using set_penalty_idem [OF pen] s1 by simp
      have c: "loo_coefficients lib s1 e X' y' b = loo_coefficients lib s e X' y' b" for e b
        by (rule loo_coefficients_config) (simp_all add: s1)
      show ?thesis
        using a none
        by (simp add: get_aloo_fitted_parameters_def p c split: sum.splits prod.splits)
    qed
    show "loo_fitted_parameters s1 = None
      \<and> (\<forall>X' y' alpha' cache'.
            map_sum id fst (get_aloo_fitted_parameters lib s1 X' y' alpha' cache')
              = map_sum id fst (get_aloo_fitted_parameters lib s X' y' alpha' cache'))"
      using none same by blast
  qed
  have p4: "loo_fitted_parameters s = None \<longrightarrow>
      map_sum id fst (get_aloo_fitted_parameters lib s X y alpha cache) =
        (case set_penalty (estimator_of s) alpha of
           Inl e \<Rightarrow> Inl e
         | Inr (est, alpha_used) \<Rightarrow> map_sum id fst (loo_coefficients lib s est X y alpha_used))"
    by (simp add: get_aloo_fitted_parameters_def split: sum.splits prod.splits)
  show ?thesis
    by (intro conjI) (rule p1, rule p2, rule p3, rule p4)
qed

theorem cached_parameters_returned_witness:
  "loo_fitted_parameters plain_calculator = None
   \<and> (\<exists>s1. get_aloo_fitted_parameters demo_numlib plain_calculator (Some X_three) (Some y_three)
               (Some 5) True = Inr (Matrix 3 [[- 6, 0, - 9], [13, 7 / 2, 6]], s1)
          \<and> loo_fitted_parameters s1 = Some (Matrix 3 [[- 6, 0, - 9], [13, 7 / 2, 6]])
          \<and> get_aloo_fitted_parameters demo_numlib s1 None None None False
               = Inr (Matrix 3 [[- 6, 0, - 9], [13, 7 / 2, 6]], s1)
          \<and> get_aloo_fitted_parameters demo_numlib s1 (Some X_demo) (Some [0, 0, 0, 0]) (Some 1) True
               = Inr (Matrix 3 [[- 6, 0, - 9], [13, 7 / 2, 6]], s1))"
proof -
  let ?M = "Matrix 3 [[- 6, 0, - 9], [13, 7 / 2, 6]]"
  have none: "loo_fitted_parameters plain_calculator = None"
    by (simp add: plain_calculator_def GlmAlooCalculator_def)
  have "\<exists>s1. get_aloo_fitted_parameters demo_numlib plain_calculator (Some X_three) (Some y_three)
               (Some 5) True = Inr (?M, s1)"
    by (simp add: calc_defs)
  then obtain s1 where s1: "get_aloo_fitted_parameters demo_numlib plain_calculator (Some X_three)
               (Some y_three) (Some 5) True = Inr (?M, s1)"
    by blast
  from cached_parameters_returned [where s = plain_calculator and lib = demo_numlib
      and X = "Some X_three" and y = "Some y_three" and alpha = "Some 5" and loo = ?M
      and ?s1.0 = s1] none s1
  have "loo_fitted_parameters s1 = Some ?M
      \<and> (\<forall>X' y' alpha' cache'.
            get_aloo_fitted_parameters demo_numlib s1 X' y' alpha' cache' = Inr (?M, s1))"
    by blast
  then show ?thesis using none s1 by blast
qed

lemma cv_scores_cached:
  assumes "loo_fitted_parameters s = Some stored"
    and "cv_scores lib s X y grid = Inr (vs, s1)"
  shows "s1 = s"
  using assms
  by (induction grid arbitrary: vs)
     (auto simp: get_aloo_fitted_parameters_def split: sum.splits prod.splits)

text \<open>
  The stored matrix also survives \<open>get_aloocv_alpha\<close>: with a matrix stored, every
  candidate of the grid is scored from that same matrix, and only the selected alpha is
  written.
\<close>

theorem alpha_selection_keeps_cache:
  assumes cached: "loo_fitted_parameters s = Some stored"
    and sel: "get_aloocv_alpha lib s X y = Inr (a, s1)"
  shows "loo_fitted_parameters s1 = Some stored
       \<and> s1 = s \<lparr> selected_alpha := Some a \<rparr>
       \<and> (\<forall>X' y' alpha' cache'.
             get_aloo_fitted_parameters lib s1 X' y' alpha' cache' = Inr (stored, s1))"
proof -
  from sel obtain vs s0 where cv: "cv_scores lib s X y (alpha_grid s) = Inr (vs, s0)"
    and s1: "s1 = s0 \<lparr> selected_alpha := Some a \<rparr>"
    by (auto simp: get_aloocv_alpha_def split: sum.splits prod.splits if_splits)
  have "s0 = s" using cv_scores_cached [OF cached cv] .
  then have "s1 = s \<lparr> selected_alpha := Some a \<rparr>" using s1 by simp
  then show ?thesis
    using cached by (simp add: get_aloo_fitted_parameters_def)
qed

theorem alpha_selection_keeps_cache_witness:
  "\<exists>s0. get_aloo_fitted_parameters demo_numlib plain_calculator (Some X_three) (Some y_three)
            (Some 5) True = Inr (Matrix 3 [[- 6, 0, - 9], [13, 7 / 2, 6]], s0)
       \<and> loo_fitted_parameters s0 = Some (Matrix 3 [[- 6, 0, - 9], [13, 7 / 2, 6]])
       \<and> get_aloocv_alpha demo_numlib s0 X_three y_three = Inr (1, s0 \<lparr> selected_alpha := Some 1 \<rparr>)
       \<and> get_aloo_fitted_parameters demo_numlib (s0 \<lparr> selected_alpha := Some 1 \<rparr>) None None None False
           = Inr (Matrix 3 [[- 6, 0, - 9], [13, 7 / 2, 6]], s0 \<lparr> selected_alpha := Some 1 \<rparr>)"
proof -
  let ?M = "Matrix 3 [[- 6, 0, - 9], [13, 7 / 2, 6]]"
  have "\<exists>s0. get_aloo_fitted_parameters demo_numlib plain_calculator (Some X_three) (Some y_three)
            (Some 5) True = Inr (?M, s0)
       \<and> loo_fitted_parameters s0 = Some ?M
       \<and> get_aloocv_alpha demo_numlib s0 X_three y_three = Inr (1, s0 \<lparr> selected_alpha := Some 1 \<rparr>)"
    by (simp add: calc_defs get_aloocv_alpha_def per_sample_scores_def score_to_pred_def
        trim_values_def call_scorer_def mean_squared_error_def argmin_def)
  then obtain s0 where s0: "get_aloo_fitted_parameters demo_numlib plain_calculator (Some X_three)
            (Some y_three) (Some 5) True = Inr (?M, s0)"
       "loo_fitted_parameters s0 = Some ?M"
       "get_aloocv_alpha demo_numlib s0 X_three y_three = Inr (1, s0 \<lparr> selected_alpha := Some 1 \<rparr>)"
    by blast
  from alpha_selection_keeps_cache [OF s0(2) s0(3)]
  have "get_aloo_fitted_parameters demo_numlib (s0 \<lparr> selected_alpha := Some 1 \<rparr>) None None None False
           = Inr (?M, s0 \<lparr> selected_alpha := Some 1 \<rparr>)"
    by blast
  then show ?thesis using s0 by blast
qed

subsection \<open>An estimator without a penalty\<close>

text \<open>
  Claim C9, as amended.  For an estimator that exposes neither \<open>alpha\<close> nor \<open>C\<close>
  (and no stored matrix), \<open>get_aloo_fitted_parameters\<close> computes what it computes for
  \<open>alpha = 0\<close>, whatever \<open>alpha\<close> it is given, and issues no warning; the warning
  that the estimator has no regularization parameter is issued by
  \<open>GenericLOOPPM._fit_model\<close>, once per fit.
\<close>

theorem no_penalty_attribute:
  assumes na: "param_alpha (estimator_of s) = Absent"
    and nc: "param_C (estimator_of s) = Absent"
    and nocache: "loo_fitted_parameters s = None"
  shows "get_aloo_fitted_parameters lib s X y alpha cache
           = get_aloo_fitted_parameters lib s X y (Some 0) cache
       \<and> map_sum id fst (get_aloo_fitted_parameters lib s X y alpha cache)
           = map_sum id fst (loo_coefficients lib s (estimator_of s) X y (Some 0))
       \<and> (\<forall>M s'. get_aloo_fitted_parameters lib s X y alpha cache = Inr (M, s')
             \<longrightarrow> calc_warnings s' = calc_warnings s)
       \<and> (\<forall>p train_bd y_train p'.
             param_alpha (ppm_estimator p) = Absent \<and> param_C (ppm_estimator p) = Absent
             \<and> loo_fit_model lib p train_bd y_train = Inr p'
             \<longrightarrow> warnings_issued p' =
                   warnings_issued p @ [''Estimator has no regularization parameter.''])"
proof -
  have pen: "set_penalty (estimator_of s) a = Inr (estimator_of s, Some 0)" for a
    using na nc by (simp add: set_penalty_def)
  have p1: "get_aloo_fitted_parameters lib s X y alpha cache
           = get_aloo_fitted_parameters lib s X y (Some 0) cache"
    using nocache by (simp add: get_aloo_fitted_parameters_def pen)
  have p2: "map_sum id fst (get_aloo_fitted_parameters lib s X y alpha cache)
           = map_sum id fst (loo_coefficients lib s (estimator_of s) X y (Some 0))"
    using nocache by (simp add: get_aloo_fitted_parameters_def pen split: sum.splits prod.splits)
  have p3: "calc_warnings s' = calc_warnings s"
    if "get_aloo_fitted_parameters lib s X y alpha cache = Inr (M, s')" for M s'
    using that nocache
    by (auto simp: get_aloo_fitted_parameters_def pen split: sum.splits prod.splits if_splits)
  have p4: "warnings_issued p' =
                   warnings_issued p @ [''Estimator has no regularization parameter.'']"
    if "param_alpha (ppm_estimator p) = Absent \<and> param_C (ppm_estimator p) = Absent
             \<and> loo_fit_model lib p train_bd y_train = Inr p'"
    for p train_bd y_train p'
    using that
    by (auto simp: loo_fit_model_def Let_def split: sum.splits prod.splits)
  show ?thesis using p1 p2 p3 p4 by blast
qed

theorem no_penalty_attribute_witness:
  "param_alpha (estimator_of plain_calculator) = Absent
   \<and> param_C (estimator_of plain_calculator) = Absent
   \<and> loo_fitted_parameters plain_calculator = None
   \<and> get_aloo_fitted_parameters demo_numlib plain_calculator (Some X_three) (Some y_three) (Some 5) False
       = get_aloo_fitted_parameters demo_numlib plain_calculator (Some X_three) (Some y_three) (Some 0) False
   \<and> map_sum id fst (get_aloo_fitted_parameters demo_numlib plain_calculator (Some X_three)
                        (Some y_three) (Some 5) False)
       = Inr (Matrix 3 [[- 6, 0, - 9], [13, 7 / 2, 6]])
   \<and> (\<exists>p'. loo_fit_model demo_numlib plain_ppm one_block y_three = Inr p'
          \<and> warnings_issued p' = [''Estimator has no regularization parameter.''])"
proof -
  have na: "param_alpha (estimator_of plain_calculator) = Absent"
    and nc: "param_C (estimator_of plain_calculator) = Absent"
    and none: "loo_fitted_parameters plain_calculator = None"
    by (simp_all add: plain_calculator_def GlmAlooCalculator_def plain_estimator_def)
  have ev: "map_sum id fst (get_aloo_fitted_parameters demo_numlib plain_calculator (Some X_three)
                        (Some y_three) (Some 5) False)
       = Inr (Matrix 3 [[- 6, 0, - 9], [13, 7 / 2, 6]])"
    by (simp add: calc_defs)
  have "\<exists>p'. loo_fit_model demo_numlib plain_ppm one_block y_three = Inr p'"
    by (simp add: ppm_defs calc_defs plain_ppm_def)
  then obtain p' where p': "loo_fit_model demo_numlib plain_ppm one_block y_three = Inr p'"
    by blast
  have attrs: "param_alpha (ppm_estimator plain_ppm) = Absent \<and> param_C (ppm_estimator plain_ppm) = Absent"
    and w0: "warnings_issued plain_ppm = []"
    by (simp_all add: plain_ppm_def GenericLOOPPM_def plain_estimator_def)
  from no_penalty_attribute [where lib = demo_numlib and X = "Some X_three"
      and y = "Some y_three" and alpha = "Some 5" and cache = False, OF na nc none]
  have eq: "get_aloo_fitted_parameters demo_numlib plain_calculator (Some X_three) (Some y_three) (Some 5) False
       = get_aloo_fitted_parameters demo_numlib plain_calculator (Some X_three) (Some y_three) (Some 0) False"
    and warn: "\<forall>p train_bd y_train p'.
             param_alpha (ppm_estimator p) = Absent \<and> param_C (ppm_estimator p) = Absent
             \<and> loo_fit_model demo_numlib p train_bd y_train = Inr p'
             \<longrightarrow> warnings_issued p' =
                   warnings_issued p @ [''Estimator has no regularization parameter.'']"
    by blast+
  from warn attrs p' w0 have "warnings_issued p' = [''Estimator has no regularization parameter.'']"
    by fastforce
  then show ?thesis using na nc none eq ev p' by blast
qed

text \<open>
  The claim as stated fails: a call of \<open>get_aloo_fitted_parameters\<close> on an estimator
  with neither attribute issues no warning.
\<close>

theorem get_aloo_fitted_parameters_silent:
  "param_alpha (estimator_of plain_calculator) = Absent
   \<and> param_C (estimator_of plain_calculator) = Absent
   \<and> (\<exists>s1. get_aloo_fitted_parameters demo_numlib plain_calculator (Some X_three) (Some y_three)
               (Some 5) False = Inr (Matrix 3 [[- 6, 0, - 9], [13, 7 / 2, 6]], s1)
          \<and> calc_warnings s1 = [])"
  by (simp add: calc_defs)

subsection \<open>The intercept-only partial prediction\<close>

lemma sum_list_length_concat:
  "length (concat xss) = sum_list (map length xss)"
  by (induction xss) auto

lemma select_block_length:
  assumes "select_block bd k md = Inr (ci, rd)"
  shows "length ci = ncols rd"
proof -
  have "length (concat (map (block_range bd) js)) = sum_list (map (\<lambda>j. ncols (data_blocks bd ! j)) js)"
    for js
    by (induction js) (auto simp: block_range_def)
  then show ?thesis
    using assms
    by (auto simp: select_block_def get_block_indices_def get_block_def block_range_def
        get_all_except_block_indices_def get_all_except_block_def hstack_def comp_def
        split: if_splits sum.splits)
qed

text \<open>
  Claim C2, as amended.  With \<open>fixed_intercept=True\<close>, when the block selected by
  \<open>mode\<close> for feature \<open>k\<close> has no column, \<open>_fit_partial_predictions\<close> returns the
  linked (and trimmed) intercept of the calculator's fitted estimator repeated
  \<open>len(y_test)\<close> times, with the list holding that intercept as parameters; when the
  block has one column or more, it returns the predictions computed from the stored
  per-sample coefficient matrix restricted to the block's columns and the intercept
  column, with that restricted matrix as parameters.
\<close>

theorem loo_partial_predictions_branches:
  assumes fixed: "fixed_intercept p"
    and sel: "select_block test_bd k md = Inr (ci, reduced_data)"
  shows
   "(ncols reduced_data = 0
       \<and> extract_coef_and_intercept (estimator_of (aloo_calculator p)) = Inr (c, Arr0 b)
       \<and> trim_values (trim_of (aloo_calculator p)) [link_fn (aloo_calculator p) b] = Inr [v]
     \<longrightarrow> loo_fit_partial_predictions lib p k md test_bd (Some yt)
           = Inr ((replicate (length yt) v, PList [Arr0 b]), p))
    \<and> (ncols reduced_data \<noteq> 0 \<and> loo_fitted_parameters (aloo_calculator p) = Some P
     \<longrightarrow> loo_fit_partial_predictions lib p k md test_bd (Some yt)
           = (case select_columns (transpose_m P) (map int ci @ [- 1]) of
                Inl e \<Rightarrow> Inl e
              | Inr reduced_parameters \<Rightarrow>
                  (case per_sample_scores reduced_parameters (append_ones reduced_data) of
                     Inl e \<Rightarrow> Inl e
                   | Inr sc \<Rightarrow>
                       (case score_to_pred (aloo_calculator p) sc of
                          Inl e \<Rightarrow> Inl e
                        | Inr preds \<Rightarrow> Inr ((preds, PArr2 reduced_parameters), p)))))"
proof -
  have len: "length ci = ncols reduced_data"
    using sel by (rule select_block_length)
  have a: "loo_fit_partial_predictions lib p k md test_bd (Some yt)
           = Inr ((replicate (length yt) v, PList [Arr0 b]), p)"
    if "ncols reduced_data = 0"
      and "extract_coef_and_intercept (estimator_of (aloo_calculator p)) = Inr (c, Arr0 b)"
      and "trim_values (trim_of (aloo_calculator p)) [link_fn (aloo_calculator p) b] = Inr [v]"
    using that fixed sel len
    by (simp add: loo_fit_partial_predictions_def score_to_pred_def np_repeat_def)
  have b: "loo_fit_partial_predictions lib p k md test_bd (Some yt)
           = (case select_columns (transpose_m P) (map int ci @ [- 1]) of
                Inl e \<Rightarrow> Inl e
              | Inr reduced_parameters \<Rightarrow>
                  (case per_sample_scores reduced_parameters (append_ones reduced_data) of
                     Inl e \<Rightarrow> Inl e
                   | Inr sc \<Rightarrow>
                       (case score_to_pred (aloo_calculator p) sc of
                          Inl e \<Rightarrow> Inl e
                        | Inr preds \<Rightarrow> Inr ((preds, PArr2 reduced_parameters), p))))"
    if nz: "ncols reduced_data \<noteq> 0" and cached: "loo_fitted_parameters (aloo_calculator p) = Some P"
  proof -
    have "ci \<noteq> []" using nz len by auto
    then show ?thesis
      using cached fixed sel
      by (simp add: loo_fit_partial_predictions_def get_aloo_fitted_parameters_def Let_def
          split: sum.splits)
  qed
  show ?thesis using a b by blast
qed

theorem loo_partial_predictions_branches_witness:
  "\<exists>m. ppm_fit (loo_class demo_numlib) (new_ppm (RidgeLOOPPM [1] True)) one_block y_three
          one_block (Some y_three) ''keep_k'' = Inr m
     \<and> fixed_intercept (subclass_state m)
     \<and> select_block empty_first 0 ''keep_k'' = Inr ([], Matrix 0 [[], [], []])
     \<and> loo_fit_partial_predictions demo_numlib (subclass_state m) 0 ''keep_k'' empty_first (Some y_three)
         = Inr (([3, 3, 3], PList [Arr0 3]), subclass_state m)
     \<and> select_block one_block 0 ''keep_k'' = Inr ([0], X_three)
     \<and> loo_fit_partial_predictions demo_numlib (subclass_state m) 0 ''keep_k'' one_block (Some y_three)
         = Inr (([7, 7 / 2, - 3], PArr2 (Matrix 2 [[- 2, 7], [0, 7 / 2], [- 3, 3]])), subclass_state m)"
proof -
  from ridge_demo_fit obtain m where m: "ppm_fit (loo_class demo_numlib) (new_ppm (RidgeLOOPPM [1] True)) one_block y_three
          one_block (Some y_three) ''keep_k'' = Inr m"
     and fixed: "fixed_intercept (subclass_state m)"
     and ext: "extract_coef_and_intercept (estimator_of (aloo_calculator (subclass_state m)))
           = Inr ([0], Arr0 3)"
     and tr: "trim_of (aloo_calculator (subclass_state m)) = None"
     and lk: "link_fn (aloo_calculator (subclass_state m)) = (\<lambda>a. a)"
     and cached: "loo_fitted_parameters (aloo_calculator (subclass_state m))
           = Some (Matrix 3 [[- 2, 0, - 3], [7, 7 / 2, 3]])"
    by blast
  let ?p = "subclass_state m"
  have sel0: "select_block empty_first 0 ''keep_k'' = Inr ([], Matrix 0 [[], [], []])"
    by (simp add: select_block_def empty_first_def get_block_indices_def get_block_def
        n_blocks_def block_range_def block_start_def)
  have sel1: "select_block one_block 0 ''keep_k'' = Inr ([0], X_three)"
    by (simp add: select_block_def one_block_def get_block_indices_def get_block_def
        n_blocks_def block_range_def block_start_def X_three_def upt_conv_Cons)
  have trim: "trim_values (trim_of (aloo_calculator ?p)) [link_fn (aloo_calculator ?p) 3] = Inr [3]"
    by (simp add: tr lk trim_values_def)
  from loo_partial_predictions_branches [where lib = demo_numlib and yt = y_three and c = "[0]"
      and b = 3 and v = 3, OF fixed sel0] ext trim
  have a: "loo_fit_partial_predictions demo_numlib ?p 0 ''keep_k'' empty_first (Some y_three)
         = Inr (([3, 3, 3], PList [Arr0 3]), ?p)"
    by (simp add: y_three_def numeral_3_eq_3)
  from loo_partial_predictions_branches [where lib = demo_numlib and yt = y_three
      and P = "Matrix 3 [[- 2, 0, - 3], [7, 7 / 2, 3]]", OF fixed sel1] cached
  have b: "loo_fit_partial_predictions demo_numlib ?p 0 ''keep_k'' one_block (Some y_three)
         = Inr (([7, 7 / 2, - 3], PArr2 (Matrix 2 [[- 2, 7], [0, 7 / 2], [- 3, 3]])), ?p)"
    by (simp add: X_three_def select_columns_def py_index_def transpose_m_def column_def
        nrows_def per_sample_scores_def mat_elementwise_def bcast_def bcast_dim_def
        append_ones_def sum_axis1_def score_to_pred_def tr lk trim_values_def upt_conv_Cons)
  show ?thesis using m fixed sel0 sel1 a b by blast
qed

text \<open>
  The claim as stated fails for a block of exactly one column: the index of the
  intercept has been appended before the test, so two indices are counted and the
  leave-one-out branch runs.
\<close>

theorem one_column_block_uses_loo:
  "get_block one_block 0 = Inr X_three
   \<and> ncols X_three = 1
   \<and> (\<exists>m. ppm_fit (loo_class demo_numlib) (new_ppm (RidgeLOOPPM [1] True)) one_block y_three
          one_block (Some y_three) ''keep_k'' = Inr m
       \<and> fixed_intercept (subclass_state m)
       \<and> extract_coef_and_intercept (estimator_of (aloo_calculator (subclass_state m)))
           = Inr ([0], Arr0 3)
       \<and> partial_preds_of m 0
           = Some ([7, 7 / 2, - 3], PArr2 (Matrix 2 [[- 2, 7], [0, 7 / 2], [- 3, 3]]))
       \<and> partial_preds_of m 0 \<noteq> Some (replicate 3 3, PList [Arr0 3]))"
proof -
  from ridge_demo_fit obtain m where m: "ppm_fit (loo_class demo_numlib) (new_ppm (RidgeLOOPPM [1] True)) one_block y_three
          one_block (Some y_three) ''keep_k'' = Inr m"
       "fixed_intercept (subclass_state m)"
       "extract_coef_and_intercept (estimator_of (aloo_calculator (subclass_state m)))
           = Inr ([0], Arr0 3)"
       "partial_preds_of m 0
           = Some ([7, 7 / 2, - 3], PArr2 (Matrix 2 [[- 2, 7], [0, 7 / 2], [- 3, 3]]))"
    by blast
  have "get_block one_block 0 = Inr X_three" "ncols X_three = 1"
    by (simp_all add: get_block_def one_block_def n_blocks_def X_three_def)
  then show ?thesis using m by auto
qed

subsection \<open>The empty representation\<close>

lemma fill_scores_defined_fold:
  "fill_scores NumPy1 sc ks = Inr (fold (\<lambda>k s. s [k := NaN]) ks sc)"
  by (induction ks arbitrary: sc) (simp_all add: np_NaN_def)

lemma fold_update_length:
  "length (fold (\<lambda>k s. s [k := v]) ks sc) = length sc"
  by (induction ks arbitrary: sc) simp_all

lemma fold_update_nth:
  "i < length sc \<Longrightarrow>
     fold (\<lambda>k s. s [k := v]) ks sc ! i = (if i \<in> set ks then v else sc ! i)"
  by (induction ks arbitrary: sc) (auto simp: nth_list_update)

lemma fill_scores_defined:
  "fill_scores NumPy1 (replicate n (Fin 0)) [0..<n] = Inr (replicate n NaN)"
proof -
  have "fold (\<lambda>k s. s [k := NaN]) [0..<n] (replicate n (Fin 0)) = replicate n NaN"
    by (rule nth_equalityI) (simp_all add: fold_update_length fold_update_nth)
  then show ?thesis by (simp add: fill_scores_defined_fold)
qed

lemma fill_scores_removed:
  "ks \<noteq> [] \<Longrightarrow> fill_scores NumPy2 sc ks = Inl AttributeError"
  by (cases ks) (simp_all add: np_NaN_def)

text \<open>
  Claim C5.  An empty training representation is to give every feature of \<open>X\<close> the
  score not-a-number, without an error, and leave the scorer fitted.  The code stores
  \<open>np.NaN\<close>, an attribute that \<open>numpy\<close> has removed: under release 2.0 or later
  the first pass of the loop raises \<open>AttributeError\<close>, from \<open>_fit_importance_scores\<close>
  and from \<open>get_scores\<close> alike, and the scorer is not fitted.  Under an earlier
  release the same call stores not-a-number for both features and the scorer is fitted.
\<close>

theorem empty_representation_raises:
  "ncols X_demo = 2
   \<and> prepare_data scorer_empty X_demo y_four =
        Inr (2, Blocked 4 [Matrix 0 [[], [], [], []], Matrix 0 [[], [], [], []]],
                Blocked 4 [Matrix 0 [[], [], [], []], Matrix 0 [[], [], [], []]], y_four, y_four)
   \<and> ncols (get_all_data (Blocked 4 [Matrix 0 [[], [], [], []], Matrix 0 [[], [], [], []]])) = 0
   \<and> \<not> is_fitted scorer_empty
   \<and> np_NaN NumPy2 = Inl AttributeError
   \<and> fit_importance_scores NumPy2 mean_class scorer_empty X_demo y_four = Inl AttributeError
   \<and> get_scores NumPy2 mean_class scorer_empty (Some X_demo) (Some y_four) = Inl AttributeError
   \<and> (\<exists>g'. fit_importance_scores NumPy1 mean_class scorer_empty X_demo y_four = Inr g'
           \<and> scores g' = Some [NaN, NaN] \<and> is_fitted g')"
proof -
  let ?bd = "Blocked 4 [Matrix 0 [[], [], [], []], Matrix 0 [[], [], [], []]]"
  have prep: "prepare_data scorer_empty X_demo y_four = Inr (2, ?bd, ?bd, y_four, y_four)"
    by (simp add: prepare_data_def scorer_empty_def GMDI_def empty_transformer_def X_demo_def
        nrows_def n_blocks_def upt_conv_Cons)
  have empty: "ncols (get_all_data ?bd) = 0"
    by (simp add: get_all_data_def hstack_def)
  have nf: "\<not> is_fitted scorer_empty"
    by (simp add: scorer_empty_def GMDI_def)
  have c: "ncols X_demo = 2" by (simp add: X_demo_def)
  have new: "fit_importance_scores NumPy2 mean_class scorer_empty X_demo y_four = Inl AttributeError"
    by (simp add: fit_importance_scores_def prep empty c upt_conv_Cons np_NaN_def)
  have old: "\<exists>g'. fit_importance_scores NumPy1 mean_class scorer_empty X_demo y_four = Inr g'
           \<and> scores g' = Some [NaN, NaN] \<and> is_fitted g'"
    by (simp add: fit_importance_scores_def prep empty c upt_conv_Cons np_NaN_def numeral_2_eq_2)
  have gs: "get_scores NumPy2 mean_class scorer_empty (Some X_demo) (Some y_four) = Inl AttributeError"
    using nf new by (simp add: get_scores_def)
  show ?thesis
    using prep empty nf c new old gs by (simp add: np_NaN_def)
qed

text \<open>
  Under a release of \<open>numpy\<close> that still has \<open>np.NaN\<close>, whatever the transformer, the
  model and the data: whenever the training representation that
  \<open>_fit_importance_scores\<close> arrives at has no column, the fit raises nothing, the score
  of every feature of \<open>X\<close> is not-a-number, and the scorer is fitted; \<open>get_scores\<close>
  returns those scores.
\<close>

theorem empty_representation_scores:
  assumes prep: "prepare_data g X y = Inr (nf, train_bd, test_bd, y_train, y_test)"
    and empty: "ncols (get_all_data train_bd) = 0"
  shows "fit_importance_scores NumPy1 cls g X y
           = Inr (g \<lparr> n_features := Some nf, scores := Some (replicate (ncols X) NaN),
                     is_fitted := True \<rparr>)
       \<and> (\<not> is_fitted g \<longrightarrow>
            (\<exists>g'. get_scores NumPy1 cls g (Some X) (Some y) = Inr (Some (replicate (ncols X) NaN), g')
                  \<and> is_fitted g' \<and> scores g' = Some (replicate (ncols X) NaN)))
       \<and> (drop_features g \<and> \<not> oob g \<longrightarrow>
            (\<exists>bd. transform (transformer_of g) X (center g) = Inr bd
                  \<and> train_bd = bd \<and> nf = n_blocks bd))"
proof -
  have fit: "fit_importance_scores NumPy1 cls g X y
           = Inr (g \<lparr> n_features := Some nf, scores := Some (replicate (ncols X) NaN),
                     is_fitted := True \<rparr>)"
    using prep empty by (simp add: fit_importance_scores_def fill_scores_defined)
  have gs: "\<exists>g'. get_scores NumPy1 cls g (Some X) (Some y) = Inr (Some (replicate (ncols X) NaN), g')
                  \<and> is_fitted g' \<and> scores g' = Some (replicate (ncols X) NaN)"
    if "\<not> is_fitted g"
    using that fit by (simp add: get_scores_def)
  have dflt: "\<exists>bd. transform (transformer_of g) X (center g) = Inr bd
                  \<and> train_bd = bd \<and> nf = n_blocks bd"
    if "drop_features g \<and> \<not> oob g"
    using that prep by (auto simp: prepare_data_def split: sum.splits)
  show ?thesis using fit gs dflt by blast
qed

theorem empty_representation_scores_witness:
  "prepare_data scorer_empty X_demo y_four =
      Inr (2, Blocked 4 [Matrix 0 [[], [], [], []], Matrix 0 [[], [], [], []]],
              Blocked 4 [Matrix 0 [[], [], [], []], Matrix 0 [[], [], [], []]], y_four, y_four)
   \<and> ncols (get_all_data (Blocked 4 [Matrix 0 [[], [], [], []], Matrix 0 [[], [], [], []]])) = 0
   \<and> \<not> is_fitted scorer_empty
   \<and> ncols X_demo = 2
   \<and> (\<exists>g'. get_scores NumPy1 mean_class scorer_empty (Some X_demo) (Some y_four)
               = Inr (Some (replicate 2 NaN), g')
            \<and> is_fitted g' \<and> scores g' = Some (replicate 2 NaN))"
proof -
  let ?bd = "Blocked 4 [Matrix 0 [[], [], [], []], Matrix 0 [[], [], [], []]]"
  have prep: "prepare_data scorer_empty X_demo y_four = Inr (2, ?bd, ?bd, y_four, y_four)"
    by (simp add: prepare_data_def scorer_empty_def GMDI_def empty_transformer_def X_demo_def
        nrows_def n_blocks_def upt_conv_Cons)
  have empty: "ncols (get_all_data ?bd) = 0"
    by (simp add: get_all_data_def hstack_def)
  have nf: "\<not> is_fitted scorer_empty"
    by (simp add: scorer_empty_def GMDI_def)
  have c: "ncols X_demo = 2" by (simp add: X_demo_def)
  from empty_representation_scores [OF prep empty, of mean_class] nf c
  have "\<exists>g'. get_scores NumPy1 mean_class scorer_empty (Some X_demo) (Some y_four)
               = Inr (Some (replicate 2 NaN), g')
            \<and> is_fitted g' \<and> scores g' = Some (replicate 2 NaN)"
    by simp
  then show ?thesis using prep empty nf c by blast
qed

text \<open>
  Under release 2.0 or later of \<open>numpy\<close>, whatever the transformer, the model and the
  data: whenever the training representation has no column and \<open>X\<close> has a feature,
  \<open>_fit_importance_scores\<close> raises \<open>AttributeError\<close>, and so does \<open>get_scores\<close>
  on a scorer that is not fitted.  Only for an \<open>X\<close> without any feature does the fit
  succeed, with an empty score vector.
\<close>

theorem empty_representation_attribute_error:
  assumes prep: "prepare_data g X y = Inr (nf, train_bd, test_bd, y_train, y_test)"
    and empty: "ncols (get_all_data train_bd) = 0"
  shows "(ncols X \<noteq> 0 \<longrightarrow>
            fit_importance_scores NumPy2 cls g X y = Inl AttributeError
            \<and> (\<not> is_fitted g \<longrightarrow> get_scores NumPy2 cls g (Some X) (Some y) = Inl AttributeError))
       \<and> (ncols X = 0 \<longrightarrow>
            fit_importance_scores NumPy2 cls g X y
              = Inr (g \<lparr> n_features := Some nf, scores := Some [], is_fitted := True \<rparr>))"
proof -
  have raises: "fit_importance_scores NumPy2 cls g X y = Inl AttributeError" if "ncols X \<noteq> 0"
  proof -
    from that have "[0..<ncols X] \<noteq> []" by simp
    from fill_scores_removed [OF this] show ?thesis
      using prep empty by (simp add: fit_importance_scores_def)
  qed
  then have gs: "get_scores NumPy2 cls g (Some X) (Some y) = Inl AttributeError"
    if "ncols X \<noteq> 0" "\<not> is_fitted g"
    using that by (simp add: get_scores_def)
  have none: "fit_importance_scores NumPy2 cls g X y
              = Inr (g \<lparr> n_features := Some nf, scores := Some [], is_fitted := True \<rparr>)"
    if "ncols X = 0"
    using that prep empty by (simp add: fit_importance_scores_def)
  show ?thesis using raises gs none by blast
qed

theorem empty_representation_attribute_error_witness:
  "prepare_data scorer_empty X_demo y_four =
      Inr (2, Blocked 4 [Matrix 0 [[], [], [], []], Matrix 0 [[], [], [], []]],
              Blocked 4 [Matrix 0 [[], [], [], []], Matrix 0 [[], [], [], []]], y_four, y_four)
   \<and> ncols (get_all_data (Blocked 4 [Matrix 0 [[], [], [], []], Matrix 0 [[], [], [], []]])) = 0
   \<and> \<not> is_fitted scorer_empty
   \<and> ncols X_demo = 2
   \<and> fit_importance_scores NumPy2 mean_class scorer_empty X_demo y_four = Inl AttributeError
   \<and> get_scores NumPy2 mean_class scorer_empty (Some X_demo) (Some y_four) = Inl AttributeError"
proof -
  let ?bd = "Blocked 4 [Matrix 0 [[], [], [], []], Matrix 0 [[], [], [], []]]"
  have prep: "prepare_data scorer_empty X_demo y_four = Inr (2, ?bd, ?bd, y_four, y_four)"
    by (simp add: prepare_data_def scorer_empty_def GMDI_def empty_transformer_def X_demo_def
        nrows_def n_blocks_def upt_conv_Cons)
  have empty: "ncols (get_all_data ?bd) = 0"
    by (simp add: get_all_data_def hstack_def)
  have nf: "\<not> is_fitted scorer_empty"
    by (simp add: scorer_empty_def GMDI_def)
  have c: "ncols X_demo = 2" by (simp add: X_demo_def)
  from empty_representation_attribute_error [OF prep empty, of mean_class] nf c
  have "fit_importance_scores NumPy2 mean_class scorer_empty X_demo y_four = Inl AttributeError"
    "get_scores NumPy2 mean_class scorer_empty (Some X_demo) (Some y_four) = Inl AttributeError"
    by simp_all
  then show ?thesis using prep empty nf c by blast
qed

subsection \<open>A target of several columns\<close>

lemma fit_one_target_length:
  "fit_one_target cls g nf train_bd y_train test_bd y_test mt = Inr (r, g1) \<Longrightarrow> length r = 3"
  by (auto simp: fit_one_target_def split: sum.splits prod.splits)

lemma unpack2_of_three: "length r = 3 \<Longrightarrow> unpack2 r = Inl ValueError"
proof -
  assume "length r = 3"
  then obtain a b c where "r = [a, b, c]"
    by (auto simp: numeral_3_eq_3 length_Suc_conv)
  then show ?thesis by (simp add: unpack2_def)
qed

lemma multi_target_loop_raises:
  "js \<noteq> [] \<Longrightarrow> \<exists>e. multi_target_loop cls g nf train_bd y_train test_bd y_test js = Inl e"
  by (cases js)
     (auto split: sum.splits prod.splits dest!: fit_one_target_length simp: unpack2_of_three)

text \<open>
  Whatever the partial-prediction model, the scorer and the data: with a target of
  several columns and a representation that is not empty, \<open>_fit_importance_scores\<close>
  raises.
\<close>

theorem multi_target_never_fitted:
  assumes "ndim y \<noteq> 1"
    and "prepare_data g X y = Inr (nf, train_bd, test_bd, y_train, y_test)"
    and "ncols (get_all_data train_bd) \<noteq> 0"
  shows "\<exists>e. fit_importance_scores release cls g X y = Inl e"
proof -
  have "ndim y = 2" using assms(1) by (cases y) auto
  then have "[0..<ndim y] \<noteq> []" by simp
  from multi_target_loop_raises [OF this]
  obtain e where "multi_target_loop cls g nf train_bd y_train test_bd y_test [0..<ndim y] = Inl e"
    by blast
  then show ?thesis
    using assms by (simp add: fit_importance_scores_def)
qed

theorem multi_target_never_fitted_witness:
  "ndim Y_three_columns \<noteq> 1
   \<and> (\<exists>bd. prepare_data scorer_raw X_demo Y_three_columns
             = Inr (2, bd, bd, Y_three_columns, Y_three_columns)
          \<and> ncols (get_all_data bd) = 2)
   \<and> (\<exists>e. fit_importance_scores NumPy1 mean_class scorer_raw X_demo Y_three_columns = Inl e)
   \<and> (\<exists>e. fit_importance_scores NumPy2 mean_class scorer_raw X_demo Y_three_columns = Inl e)"
proof -
  let ?bd = "Blocked 4 [Matrix 1 [[0], [0], [2], [2]], Matrix 1 [[0], [2], [0], [2]]]"
  have nd: "ndim Y_three_columns \<noteq> 1"
    by (simp add: Y_three_columns_def)
  have prep: "prepare_data scorer_raw X_demo Y_three_columns
             = Inr (2, ?bd, ?bd, Y_three_columns, Y_three_columns)"
    by (simp add: prepare_data_def scorer_raw_def GMDI_def raw_transformer_def X_demo_def
        nrows_def n_blocks_def column_matrix_def column_def upt_conv_Cons)
  have cols: "ncols (get_all_data ?bd) = 2"
    by (simp add: get_all_data_def hstack_def)
  then have nz: "ncols (get_all_data ?bd) \<noteq> 0" by simp
  from multi_target_never_fitted [OF nd prep nz, of NumPy1 mean_class]
    multi_target_never_fitted [OF nd prep nz, of NumPy2 mean_class]
  show ?thesis using nd prep cols by blast
qed

text \<open>
  Claim C1.  For a target of several columns one model is to be fitted per column and
  the predictions stacked.  The code does not get that far: \<open>_fit_one_target\<close>
  returns three objects and the loop unpacks them into two names, so the first column
  already raises \<open>ValueError\<close>; on a single column the same scorer and data give
  scores.
\<close>

theorem multi_column_target_raises:
  "ndim Y_three_columns = 2
   \<and> fit_importance_scores release mean_class scorer_raw X_demo Y_three_columns = Inl ValueError
   \<and> (\<exists>g'. fit_importance_scores release mean_class scorer_raw X_demo y_four = Inr g'
           \<and> scores g' = Some [Fin (3 / 2), Fin (3 / 2)])"
  by (simp add: gmdi_defs)

subsection \<open>The mean over the members\<close>

lemma fl_add_assoc: "fl_add (fl_add a b) c = fl_add a (fl_add b c)"
  by (cases a; cases b; cases c) auto

lemma fl_add_zero_left: "fl_add (Fin 0) a = a"
  by (cases a) auto

lemma foldl_fl_add: "foldl fl_add a xs = fl_add a (foldr fl_add xs (Fin 0))"
proof (induction xs arbitrary: a)
  case Nil
  then show ?case by (cases a) auto
next
  case (Cons x xs)
  then show ?case by (simp add: fl_add_assoc)
qed

lemma foldr_fl_add_spec:
  assumes "NaN \<notin> set xs"
  shows "foldr fl_add xs (Fin 0) =
     (if PInf \<in> set xs \<and> NInf \<in> set xs then NaN
      else if PInf \<in> set xs then PInf
      else if NInf \<in> set xs then NInf
      else Fin (sum_list (finite_part xs)))"
  using assms
proof (induction xs)
  case Nil
  then show ?case by (simp add: finite_part_def)
next
  case (Cons x xs)
  then have ih: "foldr fl_add xs (Fin 0) =
     (if PInf \<in> set xs \<and> NInf \<in> set xs then NaN
      else if PInf \<in> set xs then PInf
      else if NInf \<in> set xs then NInf
      else Fin (sum_list (finite_part xs)))" by simp
  from Cons.prems have "x \<noteq> NaN" by auto
  then show ?case
    by (cases x) (auto simp: ih finite_part_def)
qed

lemma nanmean_column_spec:
  "nanmean_column col =
     (let kept = filter (\<lambda>v. v \<noteq> NaN) col in
      if kept = [] then NaN
      else if PInf \<in> set kept \<and> NInf \<in> set kept then NaN
      else if PInf \<in> set kept then PInf
      else if NInf \<in> set kept then NInf
      else Fin (sum_list (finite_part kept) / real (length kept)))"
proof -
  let ?kept = "filter (\<lambda>v. v \<noteq> NaN) col"
  have nn: "NaN \<notin> set ?kept" by simp
  show ?thesis
    unfolding nanmean_column_def Let_def foldl_fl_add fl_add_zero_left
      foldr_fl_add_spec [OF nn]
    by (cases "?kept = []") (auto simp: finite_part_def)
qed

lemma nanmean_column_nan:
  "(nanmean_column col = NaN) =
     (list_all (\<lambda>v. v = NaN) col \<or> (PInf \<in> set col \<and> NInf \<in> set col))"
proof -
  have e: "(filter (\<lambda>v. v \<noteq> NaN) col = []) = list_all (\<lambda>v. v = NaN) col"
    by (induction col) auto
  show ?thesis
    unfolding nanmean_column_spec Let_def e [symmetric]
    by (auto simp: filter_empty_conv)
qed

lemma nanmean_example: "nanmean_column [Fin 2, NaN, Fin 4] = Fin 3"
  by (simp add: nanmean_column_def)

lemma member_scores_length:
  "member_scores release cls gs X y = Inr (scs, gs1) \<Longrightarrow> length gs1 = length scs"
  by (induction gs arbitrary: scs gs1) (auto split: sum.splits prod.splits)

text \<open>
  Claim C4, as amended.  When every member returns a score vector and the vectors have
  one length, \<open>GMDIEnsemble.get_scores\<close> returns, per feature, the mean of the
  members' scores that are not not-a-number; the scores 2.0, not-a-number, 4.0 give
  exactly 3.0; and the ensemble score of a feature is not-a-number exactly when every
  member's score for it is not-a-number or the members' scores for it hold both
  infinities.
\<close>

theorem ensemble_nanmean:
  assumes nf: "\<not> ens_is_fitted ens"
    and rows: "nrows X = len y"
    and members: "member_scores release cls (gmdi_objects ens) X y
                    = Inr (map Some (v # rest), fitted_members)"
    and same: "list_all (\<lambda>w. length w = length v) rest"
  shows "(\<exists>ens'. ens_get_scores release cls ens (Some X) (Some y)
              = Inr (Some (map (\<lambda>j. nanmean_column (map (\<lambda>w. w ! j) (v # rest))) [0..<length v]), ens')
            \<and> ens_is_fitted ens')
       \<and> (\<forall>col. nanmean_column col =
             (let kept = filter (\<lambda>x. x \<noteq> NaN) col in
              if kept = [] then NaN
              else if PInf \<in> set kept \<and> NInf \<in> set kept then NaN
              else if PInf \<in> set kept then PInf
              else if NInf \<in> set kept then NInf
              else Fin (sum_list (finite_part kept) / real (length kept))))
       \<and> (\<forall>col. (nanmean_column col = NaN) =
             (list_all (\<lambda>x. x = NaN) col \<or> (PInf \<in> set col \<and> NInf \<in> set col)))
       \<and> nanmean_column [Fin 2, NaN, Fin 4] = Fin 3"
proof -
  from member_scores_length [OF members] obtain first others where
    fm: "fitted_members = first # others"
    by (cases fitted_members) auto
  have nn: "None \<notin> set (map Some (v # rest))" by auto
  have "\<exists>ens'. ens_get_scores release cls ens (Some X) (Some y)
              = Inr (Some (map (\<lambda>j. nanmean_column (map (\<lambda>w. w ! j) (v # rest))) [0..<length v]), ens')
            \<and> ens_is_fitted ens'"
    using nf rows members same fm nn
    by (simp add: ens_get_scores_def ens_fit_importance_scores_def nanmean_axis0_def comp_def
        del: set_map list.map)
  then show ?thesis
    using nanmean_column_spec nanmean_column_nan nanmean_example by blast
qed

theorem ensemble_nanmean_witness:
  "\<not> ens_is_fitted three_members
   \<and> nrows X_demo = len y_four
   \<and> (\<forall>release. \<exists>ms. member_scores release mean_class (gmdi_objects three_members) X_demo y_four
              = Inr (map Some [[Fin 2, Fin 2], [NaN, NaN], [Fin 4, Fin 4]], ms))
   \<and> (\<forall>release. \<exists>e'. ens_get_scores release mean_class three_members (Some X_demo) (Some y_four)
              = Inr (Some [Fin 3, Fin 3], e'))"
proof -
  have nf: "\<not> ens_is_fitted three_members"
    by (simp add: three_members_def GMDIEnsemble_def)
  have rows: "nrows X_demo = len y_four"
    by (simp add: X_demo_def y_four_def nrows_def)
  have members: "\<exists>ms. member_scores release mean_class (gmdi_objects three_members) X_demo y_four
              = Inr (map Some ([Fin 2, Fin 2] # [[NaN, NaN], [Fin 4, Fin 4]]), ms)" for release
    by (simp add: gmdi_defs)
  have same: "list_all (\<lambda>w. length w = length [Fin 2, Fin 2]) [[NaN, NaN], [Fin 4, Fin 4]]"
    by simp
  have "\<exists>e'. ens_get_scores release mean_class three_members (Some X_demo) (Some y_four)
              = Inr (Some [Fin 3, Fin 3], e')" for release
  proof -
    from members [of release]
    obtain ms where ms: "member_scores release mean_class (gmdi_objects three_members) X_demo y_four
              = Inr (map Some ([Fin 2, Fin 2] # [[NaN, NaN], [Fin 4, Fin 4]]), ms)"
      by blast
    from ensemble_nanmean [OF nf rows ms same]
    obtain e' where "ens_get_scores release mean_class three_members (Some X_demo) (Some y_four)
        = Inr (Some (map (\<lambda>j. nanmean_column (map (\<lambda>w. w ! j)
                   ([Fin 2, Fin 2] # [[NaN, NaN], [Fin 4, Fin 4]]))) [0..<length [Fin 2, Fin (2::real)]]), e')"
      by blast
    then have "ens_get_scores release mean_class three_members (Some X_demo) (Some y_four)
                = Inr (Some [Fin 3, Fin 3], e')"
      by (simp add: nanmean_column_def upt_conv_Cons)
    then show ?thesis by blast
  qed
  then show ?thesis using nf rows members by auto
qed

text \<open>
  The claim as stated fails for scores of plus and minus infinity: their mean is
  not-a-number although no member reported not-a-number.
\<close>

theorem ensemble_opposite_infinities:
  "map scores (gmdi_objects opposite_infinities) = [Some [PInf], Some [NInf]]
   \<and> (\<exists>e'. ens_get_scores NumPy1 mean_class opposite_infinities (Some X_three) (Some (Y1 y_three))
              = Inr (Some [NaN], e'))
   \<and> (\<exists>e'. ens_get_scores NumPy2 mean_class opposite_infinities (Some X_three) (Some (Y1 y_three))
              = Inr (Some [NaN], e'))"
  by (simp add: gmdi_defs)

subsection \<open>The members of an ensemble\<close>

text \<open>
  The scorers that \<open>GMDIEnsemble.__init__\<close> builds: its \<open>center\<close> is their
  \<open>training\<close>, its \<open>include_raw\<close> their \<open>center\<close>, its \<open>drop_features\<close> their
  \<open>include_raw\<close>, and their \<open>drop_features\<close> is always true.
\<close>

theorem ensemble_member_flags:
  "\<forall>g \<in> set (gmdi_objects (GMDIEnsemble transformers model sf md oob_arg center_arg
                               include_raw_arg drop_features_arg)).
      oob g = oob_arg \<and> training g = center_arg \<and> center g = include_raw_arg
      \<and> include_raw g = drop_features_arg \<and> drop_features g = True
      \<and> \<not> is_fitted g"
  by (auto simp: GMDIEnsemble_def GMDI_def)

theorem ensemble_member_flags_witness:
  "map (\<lambda>g. (oob g, training g, center g, include_raw g, drop_features g))
       (gmdi_objects (GMDIEnsemble [raw_transformer [0] [0]] (new_ppm (0::real)) mean_prediction
           ''keep_k'' True False True False))
     = [(True, False, True, False, True)]"
proof -
  let ?e = "GMDIEnsemble [raw_transformer [0] [0]] (new_ppm (0::real)) mean_prediction
           ''keep_k'' True False True False"
  have one: "length (gmdi_objects ?e) = 1"
    by (simp add: GMDIEnsemble_def)
  then obtain g where g: "gmdi_objects ?e = [g]"
    by (cases "gmdi_objects ?e") auto
  then have "g \<in> set (gmdi_objects ?e)" by simp
  with ensemble_member_flags [of "[raw_transformer [0] [0]]" "new_ppm (0::real)" mean_prediction
      "''keep_k''" True False True False]
  have "oob g = True \<and> training g = False \<and> center g = True
      \<and> include_raw g = False \<and> drop_features g = True"
    by blast
  then show ?thesis using g by simp
qed

end
